theory Spec2Isabelle
  imports Main "HOL-Library.Word"
begin

unbundle bit_operations_syntax

section \<open>Data model\<close>

type_synonym u8 = "8 word"
type_synonym u32 = "32 word"
type_synonym u64 = "64 word"

text \<open>
  Array accesses of the C code are modelled on maps from the index to the element. An
  index outside the array is undefined behaviour in C: the model returns the fault
  \<open>OutOfBounds\<close> there instead of a value.
\<close>

datatype fault = OutOfBounds

text \<open>\<open>enum eBoardButtons\<close> of the board header: \<open>kBoardButtonNone\<close> is 0, the eight
  buttons follow, and \<open>kBoardNumButtons\<close> is the size of every per-button array.\<close>

definition kBoardButtonNone :: u32 where "kBoardButtonNone = 0"
definition kBoardNumButtons :: u32 where "kBoardNumButtons = 9"

subsection \<open>Digital-input layer: the synthetic bit stream of each button\<close>

record tDiState =
  buttoninputbits :: "u32 \<Rightarrow> u64"
  buttonstatus :: u32

text \<open>Modelled from the spec: the macro \<open>BIT_TEST\<close> is declared in another component of the
  framework; the spec says the fallback read returns that button's bit of the cumulative
  button-status bitmap.\<close>

definition BIT_TEST :: "u32 \<Rightarrow> u32 \<Rightarrow> bool" where
  "BIT_TEST bitmap idx = bit bitmap (unat idx)"

definition di_read_next_button_input_bit :: "u32 \<Rightarrow> tDiState \<Rightarrow> fault + (bool \<times> tDiState)" where
  "di_read_next_button_input_bit idx d =
     (if \<not> idx < kBoardNumButtons then Inl OutOfBounds
      else
        let retval = ((buttoninputbits d idx AND 1) \<noteq> 0);
            d' = d\<lparr>buttoninputbits := (buttoninputbits d)(idx := buttoninputbits d idx div 2)\<rparr>
        in if (\<not> retval) \<and> (buttoninputbits d' idx = 0)
           then Inr (BIT_TEST (buttonstatus d') idx, d')
           else Inr (retval, d'))"

text \<open>The digital-input layer as the C initialisers leave it.\<close>

definition di_init :: tDiState where
  "di_init = \<lparr>buttoninputbits = (\<lambda>_. 0), buttonstatus = 0\<rparr>"

subsection \<open>Events, phases, exit reasons\<close>

text \<open>Modelled from the spec: the event type \<open>tEvQ_Event\<close> is declared by the event-queue
  component of the framework. The code uses its fields \<open>evId\<close> (compared with
  0 and with event ids) and \<open>evData\<close> (assigned from and to a \<open>uint32_t\<close>).\<close>

type_synonym tEvQ_EventID = u32

record tEvQ_Event =
  evId :: tEvQ_EventID
  evData :: u32

text \<open>Modelled from the spec: the phase codes \<open>tStateReturnCodes\<close> are declared by the
  state-machine engine of the framework. The spec lists the phase marker as
  one of Uninit, Operational, Exit, Finished, a small integer incremented on each
  invocation, and calls the status of the null-pointer guard the sentinel 0.\<close>

type_synonym tStateReturnCodes = u32

definition kStateUninit :: tStateReturnCodes where "kStateUninit = 0"
definition kStateOperational :: tStateReturnCodes where "kStateOperational = 1"
definition kStateExit :: tStateReturnCodes where "kStateExit = 2"
definition kStateFinished :: tStateReturnCodes where "kStateFinished = 3"

text \<open>The anonymous enum of "Reason3" codes.\<close>

definition kReasonNone :: u32 where "kReasonNone = 0"
definition kReasonTwitchNoted :: u32 where "kReasonTwitchNoted = 1"
definition kReasonDebounced :: u32 where "kReasonDebounced = 2"
definition kReasonTimeout :: u32 where "kReasonTimeout = 3"
definition kReasonButtonUnstuck :: u32 where "kReasonButtonUnstuck = 4"

text \<open>
  The project's event ids and the clock's duration constants are declared in other
  components of the framework. The model takes them as a parameter \<open>cfg\<close> of every function that
  mentions one of them.
\<close>

type_synonym tCwswClockTics = int

record tCwswCfg =
  evButton_Task :: tEvQ_EventID
  evBntPressed :: tEvQ_EventID
  evBtnReleased :: tEvQ_EventID
  evButton_BtnStuck :: tEvQ_EventID
  evButton_BtnUnstuck :: tEvQ_EventID
  tmr10ms :: tCwswClockTics
  tmr100ms :: tCwswClockTics
  tmr500ms :: tCwswClockTics
  tmr1000ms :: tCwswClockTics

text \<open>\<open>enum eButtonCalibrationValues\<close>.\<close>

definition kButtonStuckTimeoutValue :: "tCwswCfg \<Rightarrow> tCwswClockTics" where
  "kButtonStuckTimeoutValue cfg = tmr1000ms cfg * 30"

definition kTmButtonDebounceTime :: "tCwswCfg \<Rightarrow> tCwswClockTics" where
  "kTmButtonDebounceTime cfg = tmr500ms cfg + tmr100ms cfg"

subsection \<open>Clock service\<close>

text \<open>Modelled from the spec: the clock service behind \<open>Set(Cwsw_Clock, tmr, duration)\<close>
  and \<open>TM(tmr)\<close> is another component of the framework. The spec describes it as arming a
  countdown and querying whether it has expired; the board header expands \<open>TM\<close> through
  \<open>Cwsw_GetTimeLeft\<close>. A timer holds the tick count at which it matures, and the first
  argument is the clock's current tick count.\<close>

definition Cwsw_Clock_Set :: "tCwswClockTics \<Rightarrow> tCwswClockTics \<Rightarrow> tCwswClockTics" where
  "Cwsw_Clock_Set now duration = now + duration"

definition Cwsw_GetTimeLeft :: "tCwswClockTics \<Rightarrow> tCwswClockTics \<Rightarrow> tCwswClockTics" where
  "Cwsw_GetTimeLeft now tmr = tmr - now"

definition TM :: "tCwswClockTics \<Rightarrow> tCwswClockTics \<Rightarrow> bool" where
  "TM now tmr = (Cwsw_GetTimeLeft now tmr \<le> 0)"

subsection \<open>Function-local static variables of the state functions\<close>

record tDebounceStatics =
  db_statephase :: "u32 \<Rightarrow> tStateReturnCodes"
  db_tmrMyStateTimer :: "u32 \<Rightarrow> tCwswClockTics"
  db_tmrdebounce :: tCwswClockTics
  db_evId :: "u32 \<Rightarrow> tEvQ_EventID"
  db_reason3 :: "u32 \<Rightarrow> u32"
  db_read_bits :: "u32 \<Rightarrow> u8"

record tStartStatics =
  st_statephase :: "u32 \<Rightarrow> tStateReturnCodes"
  st_evId :: "u32 \<Rightarrow> tEvQ_EventID"

record tReleasedStatics =
  rl_statephase :: "u32 \<Rightarrow> tStateReturnCodes"

record tPressedStatics =
  pr_statephase :: "u32 \<Rightarrow> tStateReturnCodes"
  pr_tmrPressedStateTimer :: "u32 \<Rightarrow> tCwswClockTics"
  pr_tmrPressed :: tCwswClockTics
  pr_evId :: "u32 \<Rightarrow> tEvQ_EventID"
  pr_reason2 :: "u32 \<Rightarrow> u32"
  pr_reason3 :: "u32 \<Rightarrow> u32"

record tStuckStatics =
  sk_statephase :: "u32 \<Rightarrow> tStateReturnCodes"
  sk_evId :: "u32 \<Rightarrow> tEvQ_EventID"

text \<open>Everything a state function can read or write: the clock's tick count, the
  digital-input layer and the static variables of the five state functions
  (\<open>stDebouncePress\<close> and \<open>stDebounceRelease\<close> both run \<open>stDebounceButton\<close> and so share
  its static variables).\<close>

record world =
  Cwsw_ClockTics :: tCwswClockTics
  di :: tDiState
  debounce :: tDebounceStatics
  start :: tStartStatics
  released :: tReleasedStatics
  pressed :: tPressedStatics
  stuck :: tStuckStatics

text \<open>What a call leaves behind: the returned status, the event behind \<open>pev\<close>, the word
  behind \<open>pextra\<close> (\<open>None\<close> for a null pointer) and the world.\<close>

record tStateResult =
  sr_rc :: tStateReturnCodes
  sr_ev :: "tEvQ_Event option"
  sr_extra :: "u32 option"
  sr_world :: world

section \<open>State functions\<close>

text \<open>
  Every state function starts with the two null-pointer guards, reads the button index
  from the event, and switches on the post-incremented phase marker of that button:
  \<open>kStateOperational\<close> and \<open>kStateExit\<close> have a case of their own, every other value
  (\<open>kStateUninit\<close>, \<open>kStateFinished\<close>, \<open>default\<close>) runs the entry case. The returned
  status is the phase marker as the call leaves it.
\<close>

subsection \<open>\<open>stDebounceButton\<close>, shared by DebouncePress and DebounceRelease\<close>

definition stDebounceButton_entry ::
  "tCwswCfg \<Rightarrow> tCwswClockTics \<Rightarrow> tEvQ_Event \<Rightarrow> u32 \<Rightarrow> tDebounceStatics \<Rightarrow> tDebounceStatics" where
  "stDebounceButton_entry cfg now ev thisbutton s =
     s\<lparr>db_evId := (db_evId s)(thisbutton := evId ev),
       db_statephase := (db_statephase s)(thisbutton := kStateOperational),
       db_read_bits := (db_read_bits s)(thisbutton := 1),
       db_tmrMyStateTimer := (db_tmrMyStateTimer s)
         (thisbutton := Cwsw_Clock_Set now (kTmButtonDebounceTime cfg))\<rparr>"

definition stDebounceButton_operational ::
  "tCwswCfg \<Rightarrow> tCwswClockTics \<Rightarrow> u32 \<Rightarrow> bool \<Rightarrow> tDebounceStatics \<Rightarrow> tDebounceStatics" where
  "stDebounceButton_operational cfg now thisbutton thisbit s =
     (let s1 = s\<lparr>db_tmrdebounce := db_tmrMyStateTimer s thisbutton\<rparr>;
          s2 = s1\<lparr>db_read_bits := (db_read_bits s1)
                 (thisbutton := push_bit 1 (db_read_bits s1 thisbutton))\<rparr>;
          s3 = s2\<lparr>db_read_bits := (db_read_bits s2)
                 (thisbutton := db_read_bits s2 thisbutton OR of_bool thisbit)\<rparr>
      in if db_read_bits s3 thisbutton = 0
         then s3\<lparr>db_evId := (db_evId s3)(thisbutton := evBtnReleased cfg),
                 db_reason3 := (db_reason3 s3)(thisbutton := kReasonDebounced)\<rparr>
         else if db_read_bits s3 thisbutton = 0xFF
         then s3\<lparr>db_evId := (db_evId s3)(thisbutton := evBntPressed cfg),
                 db_reason3 := (db_reason3 s3)(thisbutton := kReasonDebounced)\<rparr>
         else if TM now (db_tmrdebounce s3)
         then s3\<lparr>db_reason3 := (db_reason3 s3)(thisbutton := kReasonTimeout)\<rparr>
         else s3\<lparr>db_statephase := (db_statephase s3)
                 (thisbutton := db_statephase s3 thisbutton - 1)\<rparr>)"

definition stDebounceButton ::
  "tCwswCfg \<Rightarrow> tEvQ_Event option \<Rightarrow> u32 option \<Rightarrow> world \<Rightarrow> fault + tStateResult" where
  "stDebounceButton cfg pev pextra w =
     (case pev of
        None \<Rightarrow> Inr \<lparr>sr_rc = 0, sr_ev = pev, sr_extra = pextra, sr_world = w\<rparr>
      | Some ev \<Rightarrow>
     (case pextra of
        None \<Rightarrow> Inr \<lparr>sr_rc = 0, sr_ev = pev, sr_extra = pextra, sr_world = w\<rparr>
      | Some extra \<Rightarrow>
        let thisbutton = evData ev in
        if \<not> thisbutton < kBoardNumButtons then Inl OutOfBounds
        else
          let phase = db_statephase (debounce w) thisbutton;
              s = (debounce w)\<lparr>db_statephase :=
                    (db_statephase (debounce w))(thisbutton := phase + 1)\<rparr>
          in if phase = kStateOperational then
               (case di_read_next_button_input_bit thisbutton (di w) of
                  Inl f \<Rightarrow> Inl f
                | Inr (thisbit, d') \<Rightarrow>
                    let s' = stDebounceButton_operational cfg (Cwsw_ClockTics w)
                               thisbutton thisbit s
                    in Inr \<lparr>sr_rc = db_statephase s' thisbutton, sr_ev = Some ev,
                            sr_extra = Some extra,
                            sr_world = w\<lparr>di := d', debounce := s'\<rparr>\<rparr>)
             else if phase = kStateExit then
               Inr \<lparr>sr_rc = db_statephase s thisbutton,
                    sr_ev = Some (ev\<lparr>evId := db_evId s thisbutton, evData := thisbutton\<rparr>),
                    sr_extra = Some (db_reason3 s thisbutton),
                    sr_world = w\<lparr>debounce := s\<rparr>\<rparr>
             else
               let s' = stDebounceButton_entry cfg (Cwsw_ClockTics w) ev thisbutton s
               in Inr \<lparr>sr_rc = db_statephase s' thisbutton, sr_ev = Some ev,
                       sr_extra = Some extra, sr_world = w\<lparr>debounce := s'\<rparr>\<rparr>))"

definition stDebouncePress ::
  "tCwswCfg \<Rightarrow> tEvQ_Event option \<Rightarrow> u32 option \<Rightarrow> world \<Rightarrow> fault + tStateResult" where
  "stDebouncePress cfg pev pextra w = stDebounceButton cfg pev pextra w"

definition stDebounceRelease ::
  "tCwswCfg \<Rightarrow> tEvQ_Event option \<Rightarrow> u32 option \<Rightarrow> world \<Rightarrow> fault + tStateResult" where
  "stDebounceRelease cfg pev pextra w = stDebounceButton cfg pev pextra w"

subsection \<open>\<open>stStart\<close>\<close>

definition stStart ::
  "tEvQ_Event option \<Rightarrow> u32 option \<Rightarrow> world \<Rightarrow> fault + tStateResult" where
  "stStart pev pextra w =
     (case pev of
        None \<Rightarrow> Inr \<lparr>sr_rc = 0, sr_ev = pev, sr_extra = pextra, sr_world = w\<rparr>
      | Some ev \<Rightarrow>
     (case pextra of
        None \<Rightarrow> Inr \<lparr>sr_rc = 0, sr_ev = pev, sr_extra = pextra, sr_world = w\<rparr>
      | Some extra \<Rightarrow>
        let thisbutton = evData ev in
        if \<not> thisbutton < kBoardNumButtons then Inl OutOfBounds
        else
          let phase = st_statephase (start w) thisbutton;
              s = (start w)\<lparr>st_statephase :=
                    (st_statephase (start w))(thisbutton := phase + 1)\<rparr>
          in if phase = kStateOperational then
               Inr \<lparr>sr_rc = st_statephase s thisbutton, sr_ev = Some ev,
                    sr_extra = Some extra, sr_world = w\<lparr>start := s\<rparr>\<rparr>
             else if phase = kStateExit then
               Inr \<lparr>sr_rc = st_statephase s thisbutton,
                    sr_ev = Some (ev\<lparr>evId := st_evId s thisbutton, evData := thisbutton\<rparr>),
                    sr_extra = Some kReasonNone,
                    sr_world = w\<lparr>start := s\<rparr>\<rparr>
             else
               let s' = s\<lparr>st_statephase := (st_statephase s)(thisbutton := kStateOperational),
                          st_evId := (st_evId s)(thisbutton := evId ev)\<rparr>
               in Inr \<lparr>sr_rc = st_statephase s' thisbutton, sr_ev = Some ev,
                       sr_extra = Some extra, sr_world = w\<lparr>start := s'\<rparr>\<rparr>))"

subsection \<open>\<open>stButtonReleased\<close>\<close>

definition stButtonReleased ::
  "tEvQ_Event option \<Rightarrow> u32 option \<Rightarrow> world \<Rightarrow> fault + tStateResult" where
  "stButtonReleased pev pextra w =
     (case pev of
        None \<Rightarrow> Inr \<lparr>sr_rc = 0, sr_ev = pev, sr_extra = pextra, sr_world = w\<rparr>
      | Some ev \<Rightarrow>
     (case pextra of
        None \<Rightarrow> Inr \<lparr>sr_rc = 0, sr_ev = pev, sr_extra = pextra, sr_world = w\<rparr>
      | Some extra \<Rightarrow>
        let thisbutton = evData ev in
        if \<not> thisbutton < kBoardNumButtons then Inl OutOfBounds
        else
          let phase = rl_statephase (released w) thisbutton;
              s = (released w)\<lparr>rl_statephase :=
                    (rl_statephase (released w))(thisbutton := phase + 1)\<rparr>
          in if phase = kStateOperational then
               (case di_read_next_button_input_bit thisbutton (di w) of
                  Inl f \<Rightarrow> Inl f
                | Inr (thisbit, d') \<Rightarrow>
                    let s' = (if \<not> thisbit
                              then s\<lparr>rl_statephase := (rl_statephase s)
                                      (thisbutton := rl_statephase s thisbutton - 1)\<rparr>
                              else s)
                    in Inr \<lparr>sr_rc = rl_statephase s' thisbutton, sr_ev = Some ev,
                            sr_extra = Some extra,
                            sr_world = w\<lparr>di := d', released := s'\<rparr>\<rparr>)
             else if phase = kStateExit then
               Inr \<lparr>sr_rc = rl_statephase s thisbutton,
                    sr_ev = Some (ev\<lparr>evData := thisbutton\<rparr>),
                    sr_extra = Some kReasonTwitchNoted,
                    sr_world = w\<lparr>released := s\<rparr>\<rparr>
             else
               let s' = s\<lparr>rl_statephase := (rl_statephase s)(thisbutton := kStateOperational)\<rparr>
               in Inr \<lparr>sr_rc = rl_statephase s' thisbutton, sr_ev = Some ev,
                       sr_extra = Some extra, sr_world = w\<lparr>released := s'\<rparr>\<rparr>))"

subsection \<open>\<open>stButtonPressed\<close>\<close>

definition stButtonPressed_entry ::
  "tCwswCfg \<Rightarrow> tCwswClockTics \<Rightarrow> tEvQ_Event \<Rightarrow> u32 \<Rightarrow> tPressedStatics \<Rightarrow> tPressedStatics" where
  "stButtonPressed_entry cfg now ev thisbutton s =
     s\<lparr>pr_evId := (pr_evId s)(thisbutton := evId ev),
       pr_reason3 := (pr_reason3 s)(thisbutton := kReasonNone),
       pr_statephase := (pr_statephase s)(thisbutton := kStateOperational),
       pr_tmrPressedStateTimer := (pr_tmrPressedStateTimer s)
         (thisbutton := Cwsw_Clock_Set now (kButtonStuckTimeoutValue cfg))\<rparr>"

definition stButtonPressed_operational ::
  "tCwswClockTics \<Rightarrow> u32 \<Rightarrow> bool \<Rightarrow> tPressedStatics \<Rightarrow> tPressedStatics" where
  "stButtonPressed_operational now thisbutton thisbit s =
     (let s1 = s\<lparr>pr_tmrPressed := pr_tmrPressedStateTimer s thisbutton\<rparr>
      in if \<not> thisbit
         then s1\<lparr>pr_reason2 := (pr_reason2 s1)(thisbutton := thisbutton),
                 pr_reason3 := (pr_reason3 s1)(thisbutton := kReasonTwitchNoted)\<rparr>
         else if TM now (pr_tmrPressed s1)
         then s1\<lparr>pr_reason2 := (pr_reason2 s1)(thisbutton := 0),
                 pr_reason3 := (pr_reason3 s1)(thisbutton := kReasonTimeout)\<rparr>
         else s1\<lparr>pr_statephase := (pr_statephase s1)
                 (thisbutton := pr_statephase s1 thisbutton - 1)\<rparr>)"

definition stButtonPressed ::
  "tCwswCfg \<Rightarrow> tEvQ_Event option \<Rightarrow> u32 option \<Rightarrow> world \<Rightarrow> fault + tStateResult" where
  "stButtonPressed cfg pev pextra w =
     (case pev of
        None \<Rightarrow> Inr \<lparr>sr_rc = 0, sr_ev = pev, sr_extra = pextra, sr_world = w\<rparr>
      | Some ev \<Rightarrow>
     (case pextra of
        None \<Rightarrow> Inr \<lparr>sr_rc = 0, sr_ev = pev, sr_extra = pextra, sr_world = w\<rparr>
      | Some extra \<Rightarrow>
        let thisbutton = evData ev in
        if \<not> thisbutton < kBoardNumButtons then Inl OutOfBounds
        else
          let phase = pr_statephase (pressed w) thisbutton;
              s = (pressed w)\<lparr>pr_statephase :=
                    (pr_statephase (pressed w))(thisbutton := phase + 1)\<rparr>
          in if phase = kStateOperational then
               (case di_read_next_button_input_bit thisbutton (di w) of
                  Inl f \<Rightarrow> Inl f
                | Inr (thisbit, d') \<Rightarrow>
                    let s' = stButtonPressed_operational (Cwsw_ClockTics w)
                               thisbutton thisbit s
                    in Inr \<lparr>sr_rc = pr_statephase s' thisbutton, sr_ev = Some ev,
                            sr_extra = Some extra,
                            sr_world = w\<lparr>di := d', pressed := s'\<rparr>\<rparr>)
             else if phase = kStateExit then
               Inr \<lparr>sr_rc = pr_statephase s thisbutton,
                    sr_ev = Some (ev\<lparr>evId := pr_evId s thisbutton,
                                     evData := pr_reason2 s thisbutton\<rparr>),
                    sr_extra = Some (pr_reason3 s thisbutton),
                    sr_world = w\<lparr>pressed := s\<rparr>\<rparr>
             else
               let s' = stButtonPressed_entry cfg (Cwsw_ClockTics w) ev thisbutton s
               in Inr \<lparr>sr_rc = pr_statephase s' thisbutton, sr_ev = Some ev,
                       sr_extra = Some extra, sr_world = w\<lparr>pressed := s'\<rparr>\<rparr>))"

subsection \<open>\<open>stButtonStuck\<close>\<close>

text \<open>The entry case saves the event id only, and the operational case reads the input
  bit of index 0, whatever the button.\<close>

definition stButtonStuck ::
  "tEvQ_Event option \<Rightarrow> u32 option \<Rightarrow> world \<Rightarrow> fault + tStateResult" where
  "stButtonStuck pev pextra w =
     (case pev of
        None \<Rightarrow> Inr \<lparr>sr_rc = 0, sr_ev = pev, sr_extra = pextra, sr_world = w\<rparr>
      | Some ev \<Rightarrow>
     (case pextra of
        None \<Rightarrow> Inr \<lparr>sr_rc = 0, sr_ev = pev, sr_extra = pextra, sr_world = w\<rparr>
      | Some extra \<Rightarrow>
        let thisbutton = evData ev in
        if \<not> thisbutton < kBoardNumButtons then Inl OutOfBounds
        else
          let phase = sk_statephase (stuck w) thisbutton;
              s = (stuck w)\<lparr>sk_statephase :=
                    (sk_statephase (stuck w))(thisbutton := phase + 1)\<rparr>
          in if phase = kStateOperational then
               (case di_read_next_button_input_bit 0 (di w) of
                  Inl f \<Rightarrow> Inl f
                | Inr (thisbit, d') \<Rightarrow>
                    let s' = (if thisbit
                              then s\<lparr>sk_statephase := (sk_statephase s)
                                      (thisbutton := sk_statephase s thisbutton - 1)\<rparr>
                              else s)
                    in Inr \<lparr>sr_rc = sk_statephase s' thisbutton, sr_ev = Some ev,
                            sr_extra = Some extra,
                            sr_world = w\<lparr>di := d', stuck := s'\<rparr>\<rparr>)
             else if phase = kStateExit then
               Inr \<lparr>sr_rc = sk_statephase s thisbutton,
                    sr_ev = Some (ev\<lparr>evId := sk_evId s thisbutton, evData := thisbutton\<rparr>),
                    sr_extra = Some kReasonButtonUnstuck,
                    sr_world = w\<lparr>stuck := s\<rparr>\<rparr>
             else
               let s' = s\<lparr>sk_evId := (sk_evId s)(thisbutton := evId ev)\<rparr>
               in Inr \<lparr>sr_rc = sk_statephase s' thisbutton, sr_ev = Some ev,
                       sr_extra = Some extra, sr_world = w\<lparr>stuck := s'\<rparr>\<rparr>))"

subsection \<open>State handlers as values\<close>

text \<open>A \<open>pfStateHandler\<close> is a pointer to one of the six state functions; calling through
  it runs that function.\<close>

datatype pfStateHandler =
  pf_stStart | pf_stButtonReleased | pf_stDebouncePress
  | pf_stButtonPressed | pf_stDebounceRelease | pf_stButtonStuck

fun call_pfStateHandler ::
  "tCwswCfg \<Rightarrow> pfStateHandler \<Rightarrow> tEvQ_Event option \<Rightarrow> u32 option \<Rightarrow> world
     \<Rightarrow> fault + tStateResult" where
  "call_pfStateHandler cfg pf_stStart pev pextra w = stStart pev pextra w"
| "call_pfStateHandler cfg pf_stButtonReleased pev pextra w = stButtonReleased pev pextra w"
| "call_pfStateHandler cfg pf_stDebouncePress pev pextra w = stDebouncePress cfg pev pextra w"
| "call_pfStateHandler cfg pf_stButtonPressed pev pextra w = stButtonPressed cfg pev pextra w"
| "call_pfStateHandler cfg pf_stDebounceRelease pev pextra w = stDebounceRelease cfg pev pextra w"
| "call_pfStateHandler cfg pf_stButtonStuck pev pextra w = stButtonStuck pev pextra w"

section \<open>Transition functions and transition table\<close>

text \<open>
  \<open>Cwsw_EvQX__PostEvent\<close> belongs to the event-queue component of the framework: the model takes it as a parameter, a function from the queue behind \<open>pBtnEvqx\<close>
  and the event to a status and the queue afterwards. The transition functions return
  the queue as they leave it.
\<close>

definition NullTransition :: "tEvQ_Event \<Rightarrow> u32 \<Rightarrow> 'q \<Rightarrow> 'q" where
  "NullTransition ev extra pBtnEvqx = pBtnEvqx"

definition NotifyBtnStateChg ::
  "tCwswCfg \<Rightarrow> ('q \<Rightarrow> tEvQ_Event \<Rightarrow> 'r \<times> 'q) \<Rightarrow> tEvQ_Event \<Rightarrow> u32 \<Rightarrow> 'q \<Rightarrow> 'q" where
  "NotifyBtnStateChg cfg Cwsw_EvQX__PostEvent ev extra pBtnEvqx =
     (let ev' =
        (if extra = kReasonDebounced then
           (if evId ev = evBtnReleased cfg \<or> evId ev = evBntPressed cfg then ev
            else ev\<lparr>evId := 0\<rparr>)
         else if extra = kReasonTimeout then ev\<lparr>evId := evButton_BtnStuck cfg\<rparr>
         else if extra = kReasonButtonUnstuck then ev\<lparr>evId := evButton_BtnUnstuck cfg\<rparr>
         else ev\<lparr>evId := 0\<rparr>)
      in if evId ev' \<noteq> 0 then snd (Cwsw_EvQX__PostEvent pBtnEvqx ev') else pBtnEvqx)"

datatype pfTransitionFunc = pf_NullTransition | pf_NotifyBtnStateChg

text \<open>A row of the transition table, its fields named after the column headings of the
  table in the source.\<close>

record tTransitionTable =
  tt_current :: pfStateHandler
  tt_reason1 :: tEvQ_EventID
  tt_reason2 :: u32
  tt_reason3 :: u32
  tt_next :: pfStateHandler
  tt_transition :: pfTransitionFunc

definition tblTransitions :: "tCwswCfg \<Rightarrow> tTransitionTable list" where
  "tblTransitions cfg =
    [\<lparr>tt_current = pf_stStart, tt_reason1 = evButton_Task cfg, tt_reason2 = 0xFF,
      tt_reason3 = kReasonNone, tt_next = pf_stButtonReleased,
      tt_transition = pf_NullTransition\<rparr>,
     \<lparr>tt_current = pf_stButtonReleased, tt_reason1 = evButton_Task cfg, tt_reason2 = 0xFF,
      tt_reason3 = kReasonTwitchNoted, tt_next = pf_stDebouncePress,
      tt_transition = pf_NullTransition\<rparr>,
     \<lparr>tt_current = pf_stDebouncePress, tt_reason1 = evBntPressed cfg, tt_reason2 = 0xFF,
      tt_reason3 = kReasonDebounced, tt_next = pf_stButtonPressed,
      tt_transition = pf_NotifyBtnStateChg\<rparr>,
     \<lparr>tt_current = pf_stDebouncePress, tt_reason1 = evBtnReleased cfg, tt_reason2 = 0xFF,
      tt_reason3 = kReasonDebounced, tt_next = pf_stButtonReleased,
      tt_transition = pf_NullTransition\<rparr>,
     \<lparr>tt_current = pf_stDebouncePress, tt_reason1 = evButton_Task cfg, tt_reason2 = 0xFF,
      tt_reason3 = kReasonTimeout, tt_next = pf_stButtonReleased,
      tt_transition = pf_NullTransition\<rparr>,
     \<lparr>tt_current = pf_stButtonPressed, tt_reason1 = evButton_Task cfg, tt_reason2 = 0xFF,
      tt_reason3 = kReasonTwitchNoted, tt_next = pf_stDebounceRelease,
      tt_transition = pf_NullTransition\<rparr>,
     \<lparr>tt_current = pf_stButtonPressed, tt_reason1 = evButton_Task cfg, tt_reason2 = 0xFF,
      tt_reason3 = kReasonTimeout, tt_next = pf_stButtonStuck,
      tt_transition = pf_NotifyBtnStateChg\<rparr>,
     \<lparr>tt_current = pf_stDebounceRelease, tt_reason1 = evBtnReleased cfg, tt_reason2 = 0xFF,
      tt_reason3 = kReasonDebounced, tt_next = pf_stButtonReleased,
      tt_transition = pf_NotifyBtnStateChg\<rparr>,
     \<lparr>tt_current = pf_stDebounceRelease, tt_reason1 = evBntPressed cfg, tt_reason2 = 0xFF,
      tt_reason3 = kReasonDebounced, tt_next = pf_stButtonPressed,
      tt_transition = pf_NullTransition\<rparr>,
     \<lparr>tt_current = pf_stButtonStuck, tt_reason1 = evButton_Task cfg, tt_reason2 = 0xFF,
      tt_reason3 = kReasonButtonUnstuck, tt_next = pf_stButtonReleased,
      tt_transition = pf_NotifyBtnStateChg\<rparr>]"

text \<open>The rows of a table for one current state and one reason code, in table order.\<close>

definition rows_for ::
  "pfStateHandler \<Rightarrow> u32 \<Rightarrow> tTransitionTable list \<Rightarrow> tTransitionTable list" where
  "rows_for currentstate reason3 tbl =
     filter (\<lambda>row. tt_current row = currentstate \<and> tt_reason3 row = reason3) tbl"

section \<open>The button task\<close>

text \<open>The two alarm states the source names.\<close>

datatype tTmrState = kTmrState_Disabled | kTmrState_Enabled

text \<open>The alarm structure \<open>tCwswSwAlarm\<close>, with the fields its initialiser in the source
  names; \<open>pEvQX\<close> is the address of a queue, \<open>None\<close> for the null pointer.\<close>

record tCwswSwAlarm =
  tm :: tCwswClockTics
  reloadtm :: tCwswClockTics
  pEvQX :: "nat option"
  evid :: tEvQ_EventID
  tmrstate :: tTmrState

definition Btn_tmr_ButtonRead_init :: "tCwswCfg \<Rightarrow> tCwswSwAlarm" where
  "Btn_tmr_ButtonRead_init cfg =
     \<lparr>tm = tmr10ms cfg, reloadtm = tmr10ms cfg, pEvQX = None, evid = 0,
      tmrstate = kTmrState_Enabled\<rparr>"

text \<open>The task's own state: the static array \<open>currentstate\<close> (\<open>None\<close> is the null handler)
  and the alarm that launches the task.\<close>

record tButtonTask =
  currentstate :: "u32 \<Rightarrow> pfStateHandler option"
  Btn_tmr_ButtonRead :: tCwswSwAlarm

text \<open>
  \<open>Cwsw_Sme__SME\<close> is the state-machine engine of the framework: the task
  takes it as a parameter \<open>sme\<close>, a function from the table, the current handler, the
  event, the extra word and the state \<open>'m\<close> it works on (the world of the state
  functions and the event queue) to the next handler and that state afterwards.
\<close>

type_synonym 'm tSme =
  "tTransitionTable list \<Rightarrow> pfStateHandler option \<Rightarrow> tEvQ_Event \<Rightarrow> u32 \<Rightarrow> 'm
     \<Rightarrow> pfStateHandler option \<times> 'm"

text \<open>One round of the loop \<open>while(idxbutton--)\<close>, for the button \<open>idxbutton\<close>.\<close>

definition Btn_tsk_ButtonRead_body ::
  "tCwswCfg \<Rightarrow> 'm tSme \<Rightarrow> tEvQ_Event \<Rightarrow> u32 \<Rightarrow> u32 \<Rightarrow> tButtonTask \<times> 'm \<Rightarrow> tButtonTask \<times> 'm" where
  "Btn_tsk_ButtonRead_body cfg sme ev extra idxbutton st =
     (let (t, m) = st;
          t1 = (if currentstate t idxbutton = None
                then t\<lparr>currentstate := (currentstate t)(idxbutton := Some pf_stStart)\<rparr>
                else t);
          ev1 = ev\<lparr>evData := idxbutton\<rparr>;
          (nextstate, m') = sme (tblTransitions cfg) (currentstate t1 idxbutton) ev1 extra m;
          t2 = t1\<lparr>currentstate := (currentstate t1)(idxbutton := nextstate)\<rparr>;
          t3 = (if currentstate t2 idxbutton = None
                then t2\<lparr>Btn_tmr_ButtonRead :=
                          (Btn_tmr_ButtonRead t2)\<lparr>tmrstate := kTmrState_Disabled\<rparr>\<rparr>
                else t2)
      in (t3, m'))"

text \<open>The loop counts \<open>idxbutton\<close> down from the table size to 0 and runs the body with
  the decremented value.\<close>

fun Btn_tsk_ButtonRead_loop ::
  "tCwswCfg \<Rightarrow> 'm tSme \<Rightarrow> tEvQ_Event \<Rightarrow> u32 \<Rightarrow> nat \<Rightarrow> tButtonTask \<times> 'm \<Rightarrow> tButtonTask \<times> 'm" where
  "Btn_tsk_ButtonRead_loop cfg sme ev extra 0 st = st"
| "Btn_tsk_ButtonRead_loop cfg sme ev extra (Suc n) st =
     Btn_tsk_ButtonRead_loop cfg sme ev extra n
       (Btn_tsk_ButtonRead_body cfg sme ev extra (of_nat n) st)"

definition Btn_tsk_ButtonRead ::
  "tCwswCfg \<Rightarrow> 'm tSme \<Rightarrow> tEvQ_Event \<Rightarrow> u32 \<Rightarrow> tButtonTask \<times> 'm \<Rightarrow> tButtonTask \<times> 'm" where
  "Btn_tsk_ButtonRead cfg sme ev extra st =
     Btn_tsk_ButtonRead_loop cfg sme ev extra (unat kBoardNumButtons) st"

section \<open>Initial state and an example configuration\<close>

text \<open>The static variables as the C initialisers leave them (all zero).\<close>

definition world_init :: world where
  "world_init =
     \<lparr>Cwsw_ClockTics = 0,
      di = di_init,
      debounce = \<lparr>db_statephase = (\<lambda>_. kStateUninit), db_tmrMyStateTimer = (\<lambda>_. 0),
                  db_tmrdebounce = 0, db_evId = (\<lambda>_. 0), db_reason3 = (\<lambda>_. kReasonNone),
                  db_read_bits = (\<lambda>_. 0)\<rparr>,
      start = \<lparr>st_statephase = (\<lambda>_. kStateUninit), st_evId = (\<lambda>_. 0)\<rparr>,
      released = \<lparr>rl_statephase = (\<lambda>_. kStateUninit)\<rparr>,
      pressed = \<lparr>pr_statephase = (\<lambda>_. kStateUninit), pr_tmrPressedStateTimer = (\<lambda>_. 0),
                 pr_tmrPressed = 0, pr_evId = (\<lambda>_. 0), pr_reason2 = (\<lambda>_. 0),
                 pr_reason3 = (\<lambda>_. kReasonNone)\<rparr>,
      stuck = \<lparr>sk_statephase = (\<lambda>_. kStateUninit), sk_evId = (\<lambda>_. 0)\<rparr>\<rparr>"

definition task_init :: "tCwswCfg \<Rightarrow> tButtonTask" where
  "task_init cfg =
     \<lparr>currentstate = (\<lambda>_. None), Btn_tmr_ButtonRead = Btn_tmr_ButtonRead_init cfg\<rparr>"

text \<open>A configuration for concrete runs: five distinct non-zero event ids, and clock
  durations counted in milliseconds.\<close>

definition cfg_example :: tCwswCfg where
  "cfg_example =
     \<lparr>evButton_Task = 1, evBntPressed = 2, evBtnReleased = 3, evButton_BtnStuck = 4,
      evButton_BtnUnstuck = 5, tmr10ms = 10, tmr100ms = 100, tmr500ms = 500,
      tmr1000ms = 1000\<rparr>"

text \<open>Modelled from the spec: a queue for concrete runs of the notifier. The spec gives
  the event queue the contract \<open>PostEvent(queueRef, event) -> bool\<close>, a fire-and-forget
  enqueue that fails when the queue is full: here a list bounded by \<open>cap\<close>.\<close>

definition post_bounded :: "nat \<Rightarrow> tEvQ_Event list \<Rightarrow> tEvQ_Event \<Rightarrow> bool \<times> tEvQ_Event list" where
  "post_bounded cap q ev = (if length q < cap then (True, q @ [ev]) else (False, q))"

section \<open>Runs of a state function over several ticks\<close>

text \<open>
  The engine calls the current state function once per tick event, each time with the
  tick event of the task, whose \<open>evData\<close> is the button index, and with the clock where
  it stands at that tick. \<open>handler_ticks\<close> is such a run of one handler: one call per
  clock reading of the list, each on the world the call before left.
\<close>

fun handler_ticks ::
  "tCwswCfg \<Rightarrow> pfStateHandler \<Rightarrow> tEvQ_Event \<Rightarrow> u32 \<Rightarrow> tCwswClockTics list \<Rightarrow> world
     \<Rightarrow> fault + world" where
  "handler_ticks cfg h ev extra [] w = Inr w"
| "handler_ticks cfg h ev extra (t # ts) w =
     (case call_pfStateHandler cfg h (Some ev) (Some extra) (w\<lparr>Cwsw_ClockTics := t\<rparr>) of
        Inl f \<Rightarrow> Inl f
      | Inr r \<Rightarrow> handler_ticks cfg h ev extra ts (sr_world r))"

text \<open>\<open>di_feeds d idx b n\<close>: the next \<open>n\<close> reads of the input bit of button \<open>idx\<close>, from the
  digital-input state \<open>d\<close> on, all return \<open>b\<close>.\<close>

fun di_feeds :: "tDiState \<Rightarrow> u32 \<Rightarrow> bool \<Rightarrow> nat \<Rightarrow> bool" where
  "di_feeds d idx b 0 = True"
| "di_feeds d idx b (Suc n) =
     (case di_read_next_button_input_bit idx d of
        Inl f \<Rightarrow> False
      | Inr (retval, d') \<Rightarrow> retval = b \<and> di_feeds d' idx b n)"

text \<open>\<open>shift_in a b n\<close>: the accumulator \<open>a\<close> after \<open>n\<close> operate cycles that each shift it
  left by one position and OR the bit \<open>b\<close> in.\<close>

fun shift_in :: "u8 \<Rightarrow> bool \<Rightarrow> nat \<Rightarrow> u8" where
  "shift_in a b 0 = a"
| "shift_in a b (Suc n) = shift_in (push_bit 1 a OR of_bool b) b n"

text \<open>What \<open>stDebounceButton\<close> holds for one button: phase marker, accumulator, saved
  event id and exit reason.\<close>

definition debounce_view :: "u32 \<Rightarrow> world \<Rightarrow> tStateReturnCodes \<times> u8 \<times> tEvQ_EventID \<times> u32" where
  "debounce_view b w =
     (db_statephase (debounce w) b, db_read_bits (debounce w) b,
      db_evId (debounce w) b, db_reason3 (debounce w) b)"

text \<open>Worlds for concrete runs: the initial world with a synthetic stream stored for
  button 2, eight 1 bits in \<open>world_press\<close>, eight 0 bits below a 1 bit in
  \<open>world_release\<close>.\<close>

definition world_press :: world where
  "world_press = world_init\<lparr>di := di_init\<lparr>buttoninputbits := (\<lambda>_. 0)(2 := 0xFF)\<rparr>\<rparr>"

definition world_release :: world where
  "world_release = world_init\<lparr>di := di_init\<lparr>buttoninputbits := (\<lambda>_. 0)(2 := 0x100)\<rparr>\<rparr>"

text \<open>Button 2 in the operate phase of the debounce routine with the accumulator 0x7F,
  eight 1 bits stored, and the clock at 1000 past a timer that matured at 600.\<close>

definition world_late :: world where
  "world_late = world_press
     \<lparr>Cwsw_ClockTics := 1000,
      debounce := (debounce world_init)
        \<lparr>db_statephase := (\<lambda>_. kStateUninit)(2 := kStateOperational),
         db_read_bits := (\<lambda>_. 0)(2 := 0x7F),
         db_tmrMyStateTimer := (\<lambda>_. 0)(2 := 600)\<rparr>\<rparr>"

text \<open>Views for concrete runs: the status, event and extra word of a call; a call of
  the handler on the world a run of ticks left; the stored stream of a button; the phase
  marker \<open>stButtonStuck\<close> holds for a button.\<close>

definition exit_triple ::
  "fault + tStateResult \<Rightarrow> (tStateReturnCodes \<times> tEvQ_Event option \<times> u32 option) option" where
  "exit_triple x = (case x of Inl f \<Rightarrow> None | Inr r \<Rightarrow> Some (sr_rc r, sr_ev r, sr_extra r))"

definition call_after_ticks ::
  "tCwswCfg \<Rightarrow> pfStateHandler \<Rightarrow> tEvQ_Event \<Rightarrow> u32 \<Rightarrow> tCwswClockTics list \<Rightarrow> world
     \<Rightarrow> fault + tStateResult" where
  "call_after_ticks cfg h ev extra ts w =
     (case handler_ticks cfg h ev extra ts w of
        Inl f \<Rightarrow> Inl f
      | Inr w' \<Rightarrow> call_pfStateHandler cfg h (Some ev) (Some extra) w')"

definition di_stream :: "u32 \<Rightarrow> world \<Rightarrow> u64" where
  "di_stream idx w = buttoninputbits (di w) idx"

definition stuck_phase :: "u32 \<Rightarrow> world \<Rightarrow> tStateReturnCodes" where
  "stuck_phase b w = sk_statephase (stuck w) b"

text \<open>More worlds for concrete runs. \<open>world_noisy\<close>: button 2 has the one bit 1 stored and
  its status bit clear, so that its reads return 1, then 0. \<open>world_held\<close>: button 3 is held
  down (no stored stream, status bit set), so that its reads return 1. \<open>world_held_other\<close>:
  button 3 is held down and the bits 0, 1, 1 are stored for index 0.\<close>

definition world_noisy :: world where
  "world_noisy = world_init\<lparr>di := di_init\<lparr>buttoninputbits := (\<lambda>_. 0)(2 := 1)\<rparr>\<rparr>"

definition world_held :: world where
  "world_held = world_init\<lparr>di := di_init\<lparr>buttonstatus := 8\<rparr>\<rparr>"

definition world_held_other :: world where
  "world_held_other =
     world_init\<lparr>di := di_init\<lparr>buttoninputbits := (\<lambda>_. 0)(0 := 6), buttonstatus := 8\<rparr>\<rparr>"

text \<open>Everything the state functions and the digital-input layer hold for the button
  \<open>j\<close>: the entries at index \<open>j\<close> of every per-button array.\<close>

definition button_view ::
  "u32 \<Rightarrow> world \<Rightarrow>
     (tStateReturnCodes \<times> tCwswClockTics \<times> tEvQ_EventID \<times> u32 \<times> u8)
     \<times> (tStateReturnCodes \<times> tEvQ_EventID) \<times> tStateReturnCodes
     \<times> (tStateReturnCodes \<times> tCwswClockTics \<times> tEvQ_EventID \<times> u32 \<times> u32)
     \<times> (tStateReturnCodes \<times> tEvQ_EventID) \<times> u64" where
  "button_view j w =
     ((db_statephase (debounce w) j, db_tmrMyStateTimer (debounce w) j, db_evId (debounce w) j,
       db_reason3 (debounce w) j, db_read_bits (debounce w) j),
      (st_statephase (start w) j, st_evId (start w) j),
      rl_statephase (released w) j,
      (pr_statephase (pressed w) j, pr_tmrPressedStateTimer (pressed w) j, pr_evId (pressed w) j,
       pr_reason2 (pressed w) j, pr_reason3 (pressed w) j),
      (sk_statephase (stuck w) j, sk_evId (stuck w) j),
      buttoninputbits (di w) j)"

text \<open>An engine for concrete runs of the task: it finds no next state for the button 0
  and returns the null handler there; for every other button it returns the current
  handler.\<close>

definition sme_null_for_button0 :: "unit tSme" where
  "sme_null_for_button0 tbl cur ev extra m = (if evData ev = 0 then None else cur, m)"

text \<open>The phase marker a handler holds for a button.\<close>

fun handler_phase :: "pfStateHandler \<Rightarrow> u32 \<Rightarrow> world \<Rightarrow> tStateReturnCodes" where
  "handler_phase pf_stStart b w = st_statephase (start w) b"
| "handler_phase pf_stButtonReleased b w = rl_statephase (released w) b"
| "handler_phase pf_stDebouncePress b w = db_statephase (debounce w) b"
| "handler_phase pf_stButtonPressed b w = pr_statephase (pressed w) b"
| "handler_phase pf_stDebounceRelease b w = db_statephase (debounce w) b"
| "handler_phase pf_stButtonStuck b w = sk_statephase (stuck w) b"

text \<open>The two outcomes of an operate cycle that the convergence proof follows: the routine
  has left its operate phase debounced, with the terminal accumulator and the event of
  the bit \<open>bv\<close>; or it is still in its operate phase with the accumulator \<open>a\<close>.\<close>

definition debounced_exit :: "tCwswCfg \<Rightarrow> u32 \<Rightarrow> bool \<Rightarrow> world \<Rightarrow> bool" where
  "debounced_exit cfg b bv w =
     (db_statephase (debounce w) b = kStateExit
      \<and> db_read_bits (debounce w) b = (if bv then 0xFF else 0)
      \<and> db_evId (debounce w) b = (if bv then evBntPressed cfg else evBtnReleased cfg)
      \<and> db_reason3 (debounce w) b = kReasonDebounced)"

definition operating :: "u32 \<Rightarrow> u8 \<Rightarrow> world \<Rightarrow> bool" where
  "operating b a w =
     (db_statephase (debounce w) b = kStateOperational \<and> db_read_bits (debounce w) b = a)"

text \<open>\<open>ticks_10ms n\<close>: the clock readings of \<open>n\<close> calls at the call rate of the task, one
  every 10 ticks from 0 on. \<open>di_feeds_in\<close>: \<open>di_feeds\<close> on the digital-input state of a
  world.\<close>

definition ticks_10ms :: "nat \<Rightarrow> tCwswClockTics list" where
  "ticks_10ms n = map (\<lambda>i. 10 * int i) [0..<n]"

definition di_feeds_in :: "u32 \<Rightarrow> bool \<Rightarrow> nat \<Rightarrow> world \<Rightarrow> bool" where
  "di_feeds_in idx b n w = di_feeds (di w) idx b n"

text \<open>\<open>world_noise_press\<close>: the stream stored for button 2 reads 1, 0, 1, 0, ... for 54
  reads (the last of them a 0) and then eight 1 bits. \<open>world_after_noise\<close>: button 2 is in
  the operate phase of the debounce routine with the accumulator 0xAA left by such
  noise, eight 1 bits stored, the timer maturing at 600 and the clock at 500.\<close>

definition world_noise_press :: world where
  "world_noise_press =
     world_init\<lparr>di := di_init\<lparr>buttoninputbits := (\<lambda>_. 0)(2 := 0x3FD5555555555555)\<rparr>\<rparr>"

definition world_after_noise :: world where
  "world_after_noise = world_press
     \<lparr>Cwsw_ClockTics := 500,
      debounce := (debounce world_init)
        \<lparr>db_statephase := (\<lambda>_. kStateUninit)(2 := kStateOperational),
         db_read_bits := (\<lambda>_. 0)(2 := 0xAA),
         db_tmrMyStateTimer := (\<lambda>_. 0)(2 := 600),
         db_evId := (\<lambda>_. 0)(2 := 1)\<rparr>\<rparr>"

section \<open>The destructive read of the input stream\<close>

lemma and_one_neq_zero_iff: "((x :: u64) AND 1 \<noteq> 0) = bit x 0"
  by (simp add: and_one_eq bit_0 even_iff_mod_2_eq_zero)

lemma unat_half: "unat ((x :: u64) div 2) = unat x div 2"
  by (simp add: unat_div)

lemma u64_half_zero_iff: "((x :: u64) div 2 = 0) = (unat x div 2 = 0)"
  by (metis unat_half unat_eq_0)

text \<open>
  Claim C9. For every button index of the board, a call of
  \<open>di_read_next_button_input_bit\<close> returns a boolean and halves the stored stream of that
  button, leaving the streams of the other buttons and the status bitmap alone. The
  returned value is the least-significant bit of the stored stream, except when that bit
  is 0 and the halved stream is zero: then it is that button's bit of the status bitmap.
\<close>

theorem di_read_destructive:
  assumes "idx < kBoardNumButtons"
  shows "\<exists>retval d'. di_read_next_button_input_bit idx d = Inr (retval, d')
     \<and> unat (buttoninputbits d' idx) = unat (buttoninputbits d idx) div 2
     \<and> (\<forall>j. j \<noteq> idx \<longrightarrow> buttoninputbits d' j = buttoninputbits d j)
     \<and> buttonstatus d' = buttonstatus d
     \<and> retval = (if \<not> bit (buttoninputbits d idx) 0 \<and> unat (buttoninputbits d idx) div 2 = 0
                 then bit (buttonstatus d) (unat idx)
                 else bit (buttoninputbits d idx) 0)"
  using assms
  by (auto simp add: di_read_next_button_input_bit_def Let_def BIT_TEST_def
       and_one_neq_zero_iff unat_half u64_half_zero_iff)

text \<open>Button 1 with an exhausted stream and its status bit set: the read returns 1.\<close>

theorem di_read_destructive_witness:
  "(1::u32) < kBoardNumButtons
   \<and> (\<exists>retval d'. di_read_next_button_input_bit 1 (di_init\<lparr>buttonstatus := 2\<rparr>) = Inr (retval, d')
        \<and> unat (buttoninputbits d' 1) = 0 \<and> retval)"
proof -
  have h: "(1::u32) < kBoardNumButtons" by (simp add: kBoardNumButtons_def)
  show ?thesis
    using h di_read_destructive [OF h, of "di_init\<lparr>buttonstatus := 2\<rparr>"]
    by (simp add: di_init_def) blast
qed

section \<open>Null-pointer guards\<close>

text \<open>
  Claim C8. For every state function, a call with a null event pointer or a null
  guard-output pointer returns the status 0 and changes nothing: the world (phase
  markers, accumulators, timers and saved event ids of every button) and what the
  pointers refer to are as they were.
\<close>

theorem null_pointer_guard:
  assumes "pev = None \<or> pextra = None"
  shows "call_pfStateHandler cfg h pev pextra w
           = Inr \<lparr>sr_rc = 0, sr_ev = pev, sr_extra = pextra, sr_world = w\<rparr>"
  using assms
  by (cases h)
     (auto simp add: stStart_def stButtonReleased_def stDebouncePress_def stButtonPressed_def
        stDebounceRelease_def stButtonStuck_def stDebounceButton_def split: option.splits)

theorem null_pointer_guard_witness:
  "(Some \<lparr>evId = 1, evData = 2\<rparr> = None \<or> (None :: u32 option) = None)
   \<and> call_pfStateHandler cfg_example pf_stButtonPressed (Some \<lparr>evId = 1, evData = 2\<rparr>) None
        world_init
       = Inr \<lparr>sr_rc = 0, sr_ev = Some \<lparr>evId = 1, evData = 2\<rparr>, sr_extra = None,
              sr_world = world_init\<rparr>"
  using null_pointer_guard [of "Some \<lparr>evId = 1, evData = 2\<rparr>" None cfg_example
      pf_stButtonPressed world_init]
  by simp

section \<open>The event notifier\<close>

text \<open>
  Claim C7. With non-zero ids for the four button events, \<open>NotifyBtnStateChg\<close> posts as
  follows, for any posting function \<open>post\<close>: for the reason Debounced, the incoming event
  if its id is Pressed or Released, and nothing otherwise; for the reason Timeout, the
  event with the id ButtonStuck; for the reason ButtonUnstuck, the event with the id
  ButtonUnstuck; for any other reason nothing. Where it posts, the queue it leaves is
  the queue after one call of \<open>post\<close>, whatever status that call returned.
\<close>

theorem notify_event_mapping:
  assumes "evBntPressed cfg \<noteq> 0" and "evBtnReleased cfg \<noteq> 0"
    and "evButton_BtnStuck cfg \<noteq> 0" and "evButton_BtnUnstuck cfg \<noteq> 0"
  shows "NotifyBtnStateChg cfg post ev extra q =
     (if extra = kReasonDebounced then
        (if evId ev = evBntPressed cfg \<or> evId ev = evBtnReleased cfg
         then snd (post q ev) else q)
      else if extra = kReasonTimeout then snd (post q (ev\<lparr>evId := evButton_BtnStuck cfg\<rparr>))
      else if extra = kReasonButtonUnstuck then snd (post q (ev\<lparr>evId := evButton_BtnUnstuck cfg\<rparr>))
      else q)"
  using assms by (auto simp add: NotifyBtnStateChg_def Let_def)

text \<open>A timeout for button 3, posted to a queue with room and to a full queue.\<close>

theorem notify_event_mapping_witness:
  "evBntPressed cfg_example \<noteq> 0 \<and> evBtnReleased cfg_example \<noteq> 0
   \<and> evButton_BtnStuck cfg_example \<noteq> 0 \<and> evButton_BtnUnstuck cfg_example \<noteq> 0
   \<and> NotifyBtnStateChg cfg_example (post_bounded 4) \<lparr>evId = 1, evData = 3\<rparr> kReasonTimeout []
       = [\<lparr>evId = 4, evData = 3\<rparr>]
   \<and> NotifyBtnStateChg cfg_example (post_bounded 0) \<lparr>evId = 1, evData = 3\<rparr> kReasonTimeout []
       = []"
  using notify_event_mapping [of cfg_example "post_bounded 4" "\<lparr>evId = 1, evData = 3\<rparr>"
      kReasonTimeout "[]"]
    notify_event_mapping [of cfg_example "post_bounded 0" "\<lparr>evId = 1, evData = 3\<rparr>"
      kReasonTimeout "[]"]
  by (simp add: cfg_example_def post_bounded_def kReasonTimeout_def kReasonDebounced_def)

section \<open>The shared debounce routine\<close>

lemma phase_consts [simp]:
  "kStateOperational \<noteq> kStateExit" "kStateExit \<noteq> kStateOperational"
  "kStateOperational + 1 = kStateExit" "kStateExit - 1 = kStateOperational"
  "kStateExit + 1 = kStateFinished"
  by (simp_all add: kStateOperational_def kStateExit_def kStateFinished_def)

lemma stDebounceButton_entry_step:
  assumes "evData ev < kBoardNumButtons"
    and "db_statephase (debounce w) (evData ev) \<noteq> kStateOperational"
    and "db_statephase (debounce w) (evData ev) \<noteq> kStateExit"
  shows "\<exists>r. stDebounceButton cfg (Some ev) (Some extra) w = Inr r
     \<and> sr_rc r = kStateOperational \<and> sr_ev r = Some ev \<and> sr_extra r = Some extra
     \<and> db_statephase (debounce (sr_world r)) (evData ev) = kStateOperational
     \<and> db_read_bits (debounce (sr_world r)) (evData ev) = 1
     \<and> db_tmrMyStateTimer (debounce (sr_world r)) (evData ev)
         = Cwsw_Clock_Set (Cwsw_ClockTics w) (kTmButtonDebounceTime cfg)
     \<and> db_evId (debounce (sr_world r)) (evData ev) = evId ev
     \<and> di (sr_world r) = di w"
  using assms
  by (simp add: stDebounceButton_def Let_def stDebounceButton_entry_def)

lemma stDebounceButton_operational_step:
  assumes "evData ev < kBoardNumButtons"
    and "db_statephase (debounce w) (evData ev) = kStateOperational"
    and "di_read_next_button_input_bit (evData ev) (di w) = Inr (thisbit, d')"
  shows "\<exists>r. stDebounceButton cfg (Some ev) (Some extra) w = Inr r
     \<and> sr_ev r = Some ev \<and> sr_extra r = Some extra
     \<and> sr_rc r = db_statephase (debounce (sr_world r)) (evData ev)
     \<and> di (sr_world r) = d'
     \<and> db_tmrMyStateTimer (debounce (sr_world r)) (evData ev)
         = db_tmrMyStateTimer (debounce w) (evData ev)
     \<and> db_read_bits (debounce (sr_world r)) (evData ev)
         = push_bit 1 (db_read_bits (debounce w) (evData ev)) OR of_bool thisbit
     \<and> (let acc = push_bit 1 (db_read_bits (debounce w) (evData ev)) OR of_bool thisbit;
             s = debounce w; s' = debounce (sr_world r); b = evData ev
         in if acc = 0 then
              db_statephase s' b = kStateExit \<and> db_evId s' b = evBtnReleased cfg
              \<and> db_reason3 s' b = kReasonDebounced
            else if acc = 0xFF then
              db_statephase s' b = kStateExit \<and> db_evId s' b = evBntPressed cfg
              \<and> db_reason3 s' b = kReasonDebounced
            else if TM (Cwsw_ClockTics w) (db_tmrMyStateTimer s b) then
              db_statephase s' b = kStateExit \<and> db_evId s' b = db_evId s b
              \<and> db_reason3 s' b = kReasonTimeout
            else
              db_statephase s' b = kStateOperational \<and> db_evId s' b = db_evId s b
              \<and> db_reason3 s' b = db_reason3 s b)"
  using assms
  by (simp add: stDebounceButton_def Let_def stDebounceButton_operational_def)

lemma stDebounceButton_exit_step:
  assumes "evData ev < kBoardNumButtons"
    and "db_statephase (debounce w) (evData ev) = kStateExit"
  shows "stDebounceButton cfg (Some ev) (Some extra) w =
     Inr \<lparr>sr_rc = kStateFinished,
          sr_ev = Some \<lparr>evId = db_evId (debounce w) (evData ev), evData = evData ev\<rparr>,
          sr_extra = Some (db_reason3 (debounce w) (evData ev)),
          sr_world = w\<lparr>debounce := (debounce w)\<lparr>db_statephase :=
             (db_statephase (debounce w))(evData ev := kStateFinished)\<rparr>\<rparr>\<rparr>"
  using assms
  by (simp add: stDebounceButton_def Let_def)


lemma handler_ticks_debounce:
  assumes "h = pf_stDebouncePress \<or> h = pf_stDebounceRelease"
  shows "call_pfStateHandler cfg h pev pextra w = stDebounceButton cfg pev pextra w"
  using assms by (auto simp add: stDebouncePress_def stDebounceRelease_def)

lemma handler_ticks_append:
  "handler_ticks cfg h ev extra (ts @ us) w =
     (case handler_ticks cfg h ev extra ts w of
        Inl f \<Rightarrow> Inl f
      | Inr w' \<Rightarrow> handler_ticks cfg h ev extra us w')"
  by (induction ts arbitrary: w) (auto split: sum.splits)

lemma debounce_stay_run:
  assumes h: "h = pf_stDebouncePress \<or> h = pf_stDebounceRelease"
    and b: "evData ev < kBoardNumButtons"
  shows "db_statephase (debounce w) (evData ev) = kStateOperational
    \<Longrightarrow> di_feeds (di w) (evData ev) bv (length ts + m)
    \<Longrightarrow> \<forall>t\<in>set ts. \<not> TM t (db_tmrMyStateTimer (debounce w) (evData ev))
    \<Longrightarrow> \<forall>k. 0 < k \<and> k \<le> length ts
          \<longrightarrow> shift_in (db_read_bits (debounce w) (evData ev)) bv k \<noteq> 0
            \<and> shift_in (db_read_bits (debounce w) (evData ev)) bv k \<noteq> 0xFF
    \<Longrightarrow> \<exists>w'. handler_ticks cfg h ev extra ts w = Inr w'
          \<and> db_statephase (debounce w') (evData ev) = kStateOperational
          \<and> db_read_bits (debounce w') (evData ev)
              = shift_in (db_read_bits (debounce w) (evData ev)) bv (length ts)
          \<and> db_tmrMyStateTimer (debounce w') (evData ev)
              = db_tmrMyStateTimer (debounce w) (evData ev)
          \<and> db_evId (debounce w') (evData ev) = db_evId (debounce w) (evData ev)
          \<and> db_reason3 (debounce w') (evData ev) = db_reason3 (debounce w) (evData ev)
          \<and> di_feeds (di w') (evData ev) bv m"
proof (induction ts arbitrary: w)
  case Nil
  then show ?case by simp
next
  case (Cons t ts)
  let ?b = "evData ev"
  let ?w = "w\<lparr>Cwsw_ClockTics := t\<rparr>"
  from Cons.prems(2) obtain d' where
    rd: "di_read_next_button_input_bit ?b (di ?w) = Inr (bv, d')"
    and feeds': "di_feeds d' ?b bv (length ts + m)"
    by (auto split: sum.splits)
  have ph: "db_statephase (debounce ?w) ?b = kStateOperational"
    using Cons.prems(1) by simp
  let ?acc = "push_bit 1 (db_read_bits (debounce w) ?b) OR of_bool bv"
  have acc1: "?acc \<noteq> 0 \<and> ?acc \<noteq> 0xFF"
    using Cons.prems(4) [rule_format, of 1] by simp
  have ntm: "\<not> TM t (db_tmrMyStateTimer (debounce w) ?b)"
    using Cons.prems(3) by simp
  from stDebounceButton_operational_step [OF b ph rd, of cfg extra] acc1 ntm
  obtain r where
    r: "stDebounceButton cfg (Some ev) (Some extra) ?w = Inr r"
    and rdi: "di (sr_world r) = d'"
    and rtm: "db_tmrMyStateTimer (debounce (sr_world r)) ?b = db_tmrMyStateTimer (debounce w) ?b"
    and racc: "db_read_bits (debounce (sr_world r)) ?b = ?acc"
    and rph: "db_statephase (debounce (sr_world r)) ?b = kStateOperational"
    and rev: "db_evId (debounce (sr_world r)) ?b = db_evId (debounce w) ?b"
    and rre: "db_reason3 (debounce (sr_world r)) ?b = db_reason3 (debounce w) ?b"
    by (auto simp add: Let_def)
  have p2: "di_feeds (di (sr_world r)) ?b bv (length ts + m)"
    using feeds' rdi by simp
  have p3: "\<forall>t\<in>set ts. \<not> TM t (db_tmrMyStateTimer (debounce (sr_world r)) ?b)"
    using Cons.prems(3) rtm by simp
  have p4: "\<forall>k. 0 < k \<and> k \<le> length ts
          \<longrightarrow> shift_in (db_read_bits (debounce (sr_world r)) ?b) bv k \<noteq> 0
            \<and> shift_in (db_read_bits (debounce (sr_world r)) ?b) bv k \<noteq> 0xFF"
  proof (intro allI impI)
    fix k assume "0 < k \<and> k \<le> length ts"
    then have "0 < Suc k \<and> Suc k \<le> length (t # ts)" by simp
    from Cons.prems(4) [rule_format, OF this] show
      "shift_in (db_read_bits (debounce (sr_world r)) ?b) bv k \<noteq> 0
            \<and> shift_in (db_read_bits (debounce (sr_world r)) ?b) bv k \<noteq> 0xFF"
      using racc by simp
  qed
  from Cons.IH [OF rph p2 p3 p4] obtain w' where
    w': "handler_ticks cfg h ev extra ts (sr_world r) = Inr w'"
      "db_statephase (debounce w') ?b = kStateOperational"
      "db_read_bits (debounce w') ?b = shift_in (db_read_bits (debounce (sr_world r)) ?b) bv (length ts)"
      "db_tmrMyStateTimer (debounce w') ?b = db_tmrMyStateTimer (debounce (sr_world r)) ?b"
      "db_evId (debounce w') ?b = db_evId (debounce (sr_world r)) ?b"
      "db_reason3 (debounce w') ?b = db_reason3 (debounce (sr_world r)) ?b"
      "di_feeds (di w') ?b bv m"
    by blast
  have "handler_ticks cfg h ev extra (t # ts) w = Inr w'"
    using w'(1) r handler_ticks_debounce [OF h] by simp
  then show ?case
    using w' racc rtm rev rre by simp
qed


lemma shift_in_Suc_right:
  "shift_in a b (Suc n) = push_bit 1 (shift_in a b n) OR of_bool b"
proof (induction n arbitrary: a)
  case 0
  show ?case by (simp only: shift_in.simps)
next
  case (Suc n)
  have "shift_in a b (Suc (Suc n)) = shift_in (push_bit 1 a OR of_bool b) b (Suc n)"
    by (simp only: shift_in.simps)
  also have "\<dots> = push_bit 1 (shift_in (push_bit 1 a OR of_bool b) b n) OR of_bool b"
    by (rule Suc.IH)
  also have "\<dots> = push_bit 1 (shift_in a b (Suc n)) OR of_bool b"
    by (simp only: shift_in.simps)
  finally show ?case .
qed

lemma shift_in_press_values:
  "shift_in 1 True 1 = 3" "shift_in 1 True 2 = 7" "shift_in 1 True 3 = 15"
  "shift_in 1 True 4 = 31" "shift_in 1 True 5 = 63" "shift_in 1 True 6 = 127"
  "shift_in 1 True 7 = 255"
  by code_simp+

lemma shift_in_release_values:
  "shift_in 1 False 1 = 2" "shift_in 1 False 2 = 4" "shift_in 1 False 3 = 8"
  "shift_in 1 False 4 = 16" "shift_in 1 False 5 = 32" "shift_in 1 False 6 = 64"
  "shift_in 1 False 7 = 128" "shift_in 1 False 8 = 0"
  by code_simp+

lemma shift_in_seed_final:
  "shift_in 1 True 7 = 0xFF" "shift_in 1 False 8 = 0"
  by (simp_all add: shift_in_press_values shift_in_release_values)

lemma nat_less_8_cases:
  "(j::nat) < 8 \<Longrightarrow> j = 0 \<or> j = 1 \<or> j = 2 \<or> j = 3 \<or> j = 4 \<or> j = 5 \<or> j = 6 \<or> j = 7"
  by arith

lemma shift_in_seed_nonterminal:
  assumes "0 < j" and "j < (if bv then 7 else 8)"
  shows "shift_in 1 bv j \<noteq> 0 \<and> shift_in 1 bv j \<noteq> 0xFF"
proof -
  have "j < 8" using assms(2) by (simp split: if_splits)
  from nat_less_8_cases [OF this] assms show ?thesis
    by (cases bv) (auto simp add: shift_in_press_values shift_in_release_values)
qed

lemma debounce_after_entry_run:
  assumes h: "h = pf_stDebouncePress \<or> h = pf_stDebounceRelease"
    and b: "evData ev < kBoardNumButtons"
    and p1: "db_statephase (debounce w) (evData ev) \<noteq> kStateOperational"
    and p2: "db_statephase (debounce w) (evData ev) \<noteq> kStateExit"
    and feeds: "di_feeds (di w) (evData ev) bv (length ts + m)"
    and ntm: "\<forall>t\<in>set ts. \<not> TM t (Cwsw_Clock_Set t0 (kTmButtonDebounceTime cfg))"
    and len: "length ts < (if bv then 7 else 8)"
  shows "\<exists>w'. handler_ticks cfg h ev extra (t0 # ts) w = Inr w'
          \<and> db_statephase (debounce w') (evData ev) = kStateOperational
          \<and> db_read_bits (debounce w') (evData ev) = shift_in 1 bv (length ts)
          \<and> db_tmrMyStateTimer (debounce w') (evData ev)
              = Cwsw_Clock_Set t0 (kTmButtonDebounceTime cfg)
          \<and> db_evId (debounce w') (evData ev) = evId ev
          \<and> di_feeds (di w') (evData ev) bv m"
proof -
  let ?b = "evData ev"
  let ?w0 = "w\<lparr>Cwsw_ClockTics := t0\<rparr>"
  from stDebounceButton_entry_step [of ev ?w0 cfg extra] b p1 p2
  obtain r where
    r: "stDebounceButton cfg (Some ev) (Some extra) ?w0 = Inr r"
    and rph: "db_statephase (debounce (sr_world r)) ?b = kStateOperational"
    and racc: "db_read_bits (debounce (sr_world r)) ?b = 1"
    and rtm: "db_tmrMyStateTimer (debounce (sr_world r)) ?b
               = Cwsw_Clock_Set t0 (kTmButtonDebounceTime cfg)"
    and rev: "db_evId (debounce (sr_world r)) ?b = evId ev"
    and rdi: "di (sr_world r) = di w"
    by auto
  have q2: "di_feeds (di (sr_world r)) ?b bv (length ts + m)"
    using feeds rdi by simp
  have q3: "\<forall>t\<in>set ts. \<not> TM t (db_tmrMyStateTimer (debounce (sr_world r)) ?b)"
    using ntm rtm by simp
  have q4: "\<forall>k. 0 < k \<and> k \<le> length ts
          \<longrightarrow> shift_in (db_read_bits (debounce (sr_world r)) ?b) bv k \<noteq> 0
            \<and> shift_in (db_read_bits (debounce (sr_world r)) ?b) bv k \<noteq> 0xFF"
    using shift_in_seed_nonterminal [of _ bv] len racc by auto
  from debounce_stay_run [OF h b rph q2 q3 q4, of cfg extra] obtain w' where
    w': "handler_ticks cfg h ev extra ts (sr_world r) = Inr w'"
      "db_statephase (debounce w') ?b = kStateOperational"
      "db_read_bits (debounce w') ?b = shift_in (db_read_bits (debounce (sr_world r)) ?b) bv (length ts)"
      "db_tmrMyStateTimer (debounce w') ?b = db_tmrMyStateTimer (debounce (sr_world r)) ?b"
      "db_evId (debounce w') ?b = db_evId (debounce (sr_world r)) ?b"
      "di_feeds (di w') ?b bv m"
    by blast
  have "handler_ticks cfg h ev extra (t0 # ts) w = Inr w'"
    using w'(1) r handler_ticks_debounce [OF h] by simp
  then show ?thesis using w' racc rtm rev by simp
qed

text \<open>
  From the seed. A button enters a debounce state at the tick \<open>t0\<close> and is then fed the
  constant bit \<open>bv\<close>, the debounce timer not expiring before the last cycle: the routine
  leaves its operate phase at the 7th operate cycle for the bit 1 and at the 8th for
  the bit 0, and not before.
\<close>

lemma debounce_cycles_from_seed:
  assumes h: "h = pf_stDebouncePress \<or> h = pf_stDebounceRelease"
    and b: "evData ev < kBoardNumButtons"
    and p1: "db_statephase (debounce w) (evData ev) \<noteq> kStateOperational"
    and p2: "db_statephase (debounce w) (evData ev) \<noteq> kStateExit"
    and n: "n = (if bv then 7 else 8)"
    and len: "length ts = n"
    and feeds: "di_feeds (di w) (evData ev) bv n"
    and ntm: "\<forall>t\<in>set (butlast ts). \<not> TM t (Cwsw_Clock_Set t0 (kTmButtonDebounceTime cfg))"
  shows "(\<exists>w'. handler_ticks cfg h ev extra (t0 # ts) w = Inr w'
            \<and> db_statephase (debounce w') (evData ev) = kStateExit
            \<and> db_read_bits (debounce w') (evData ev) = (if bv then 0xFF else 0)
            \<and> (\<exists>r. call_pfStateHandler cfg h (Some ev) (Some extra) w' = Inr r
                  \<and> sr_rc r = kStateFinished
                  \<and> sr_ev r = Some \<lparr>evId = (if bv then evBntPressed cfg else evBtnReleased cfg),
                                    evData = evData ev\<rparr>
                  \<and> sr_extra r = Some kReasonDebounced))
       \<and> (\<forall>k<n. \<exists>wk. handler_ticks cfg h ev extra (t0 # take k ts) w = Inr wk
                  \<and> db_statephase (debounce wk) (evData ev) = kStateOperational
                  \<and> db_read_bits (debounce wk) (evData ev) = shift_in 1 bv k)"
proof (intro conjI allI impI)
  let ?b = "evData ev"
  have npos: "0 < n" using n by simp
  have ts: "ts = butlast ts @ [last ts]"
    using len npos by (cases ts rule: rev_cases) auto
  have lb: "length (butlast ts) = n - 1" using len by simp
  have f1: "di_feeds (di w) ?b bv (length (butlast ts) + 1)"
    using feeds lb npos by simp
  have l1: "length (butlast ts) < (if bv then 7 else 8)"
    using lb n by (simp split: if_splits)
  from debounce_after_entry_run [OF h b p1 p2 f1 ntm l1, of extra] obtain w1 where
    w1: "handler_ticks cfg h ev extra (t0 # butlast ts) w = Inr w1"
      "db_statephase (debounce w1) ?b = kStateOperational"
      "db_read_bits (debounce w1) ?b = shift_in 1 bv (n - 1)"
      "di_feeds (di w1) ?b bv 1"
    using lb by auto
  let ?w1 = "w1\<lparr>Cwsw_ClockTics := last ts\<rparr>"
  from w1(4) obtain d' where
    rd: "di_read_next_button_input_bit ?b (di ?w1) = Inr (bv, d')"
    by (auto split: sum.splits)
  have ph: "db_statephase (debounce ?w1) ?b = kStateOperational" using w1(2) by simp
  have acc: "push_bit 1 (db_read_bits (debounce ?w1) ?b) OR of_bool bv = (if bv then 0xFF else 0)"
  proof -
    have "push_bit 1 (db_read_bits (debounce ?w1) ?b) OR of_bool bv = shift_in 1 bv (Suc (n - 1))"
      using w1(3) by (simp only: shift_in_Suc_right) simp
    also have "\<dots> = (if bv then 0xFF else 0)"
      using n shift_in_seed_final by (simp split: if_splits)
    finally show ?thesis .
  qed
  from stDebounceButton_operational_step [OF b ph rd, of cfg extra] acc
  obtain r where
    r: "stDebounceButton cfg (Some ev) (Some extra) ?w1 = Inr r"
    and racc: "db_read_bits (debounce (sr_world r)) ?b = (if bv then 0xFF else 0)"
    and rph: "db_statephase (debounce (sr_world r)) ?b = kStateExit"
    and rev: "db_evId (debounce (sr_world r)) ?b = (if bv then evBntPressed cfg else evBtnReleased cfg)"
    and rre: "db_reason3 (debounce (sr_world r)) ?b = kReasonDebounced"
    by (cases bv) (auto simp add: Let_def)
  have run: "handler_ticks cfg h ev extra (t0 # ts) w = Inr (sr_world r)"
  proof -
    have "handler_ticks cfg h ev extra ((t0 # butlast ts) @ [last ts]) w = Inr (sr_world r)"
      using w1(1) r handler_ticks_debounce [OF h]
      by (simp only: handler_ticks_append) simp
    then show ?thesis using ts by simp
  qed
  have ex: "call_pfStateHandler cfg h (Some ev) (Some extra) (sr_world r) =
     Inr \<lparr>sr_rc = kStateFinished,
          sr_ev = Some \<lparr>evId = db_evId (debounce (sr_world r)) ?b, evData = ?b\<rparr>,
          sr_extra = Some (db_reason3 (debounce (sr_world r)) ?b),
          sr_world = (sr_world r)\<lparr>debounce := (debounce (sr_world r))\<lparr>db_statephase :=
             (db_statephase (debounce (sr_world r)))(?b := kStateFinished)\<rparr>\<rparr>\<rparr>"
    using stDebounceButton_exit_step [OF b rph] handler_ticks_debounce [OF h] by simp
  show "\<exists>w'. handler_ticks cfg h ev extra (t0 # ts) w = Inr w'
            \<and> db_statephase (debounce w') ?b = kStateExit
            \<and> db_read_bits (debounce w') ?b = (if bv then 0xFF else 0)
            \<and> (\<exists>r. call_pfStateHandler cfg h (Some ev) (Some extra) w' = Inr r
                  \<and> sr_rc r = kStateFinished
                  \<and> sr_ev r = Some \<lparr>evId = (if bv then evBntPressed cfg else evBtnReleased cfg),
                                    evData = ?b\<rparr>
                  \<and> sr_extra r = Some kReasonDebounced)"
    using run rph racc ex rev rre by simp
next
  fix k assume k: "k < n"
  let ?b = "evData ev"
  let ?ts = "take k ts"
  have lk: "length ?ts = k" using k len by simp
  have sub: "set ?ts \<subseteq> set (butlast ts)"
  proof -
    have "take k ts = take k (butlast ts)" using k len by (simp add: take_butlast)
    then show ?thesis by (metis set_take_subset)
  qed
  have f: "di_feeds (di w) ?b bv (length ?ts + (n - k))" using feeds lk k by simp
  have nt: "\<forall>t\<in>set ?ts. \<not> TM t (Cwsw_Clock_Set t0 (kTmButtonDebounceTime cfg))"
    using ntm sub by blast
  have l: "length ?ts < (if bv then 7 else 8)" using lk k n by simp
  from debounce_after_entry_run [OF h b p1 p2 f nt l, of extra]
  show "\<exists>wk. handler_ticks cfg h ev extra (t0 # take k ts) w = Inr wk
                  \<and> db_statephase (debounce wk) ?b = kStateOperational
                  \<and> db_read_bits (debounce wk) ?b = shift_in 1 bv k"
    using lk by auto
qed

lemma shift_in_eq:
  "shift_in a b n = push_bit n a OR (if b then mask n else 0)"
proof (induction n arbitrary: a)
  case 0
  show ?case by simp
next
  case (Suc n)
  have "shift_in a b (Suc n) = shift_in (push_bit 1 a OR of_bool b) b n"
    by (simp only: shift_in.simps)
  also have "\<dots> = push_bit n (push_bit 1 a OR of_bool b) OR (if b then mask n else 0)"
    by (rule Suc.IH)
  also have "\<dots> = push_bit (Suc n) a OR (if b then mask (Suc n) else 0)"
    by (cases b) (simp_all add: push_bit_or push_bit_push_bit mask_Suc_exp push_bit_of_1 ac_simps del: push_bit_of_Suc_0)
  finally show ?case .
qed

lemma shift_in_8: "shift_in (a :: u8) bv 8 = (if bv then 0xFF else 0)"
  by (simp add: shift_in_eq push_bit_eq_0_iff mask_eq_exp_minus_1)

lemma step_zero_bit: "push_bit 1 (a :: u8) OR of_bool bv = 0 \<Longrightarrow> \<not> bv"
  by (auto simp add: or_eq_0_iff)

lemma step_ff_bit: "push_bit 1 (a :: u8) OR of_bool bv = 0xFF \<Longrightarrow> bv"
proof (rule ccontr)
  assume a: "push_bit 1 a OR of_bool bv = 0xFF" and "\<not> bv"
  then have "push_bit 1 a = (0xFF :: u8)" by simp
  then have "bit (push_bit 1 a) 0 = bit (0xFF :: u8) 0" by simp
  then show False by (simp add: bit_push_bit_iff bit_0)
qed


lemma debounce_operate_cases:
  assumes h: "h = pf_stDebouncePress \<or> h = pf_stDebounceRelease"
    and b: "evData ev < kBoardNumButtons"
    and ph: "db_statephase (debounce w) (evData ev) = kStateOperational"
    and rd: "di_read_next_button_input_bit (evData ev) (di w) = Inr (bv, d')"
    and acc: "acc = push_bit 1 (db_read_bits (debounce w) (evData ev)) OR of_bool bv"
  shows "\<exists>w1. handler_ticks cfg h ev extra [t] w = Inr w1
     \<and> di w1 = d'
     \<and> db_tmrMyStateTimer (debounce w1) (evData ev)
         = db_tmrMyStateTimer (debounce w) (evData ev)
     \<and> db_read_bits (debounce w1) (evData ev) = acc
     \<and> (acc = 0 \<or> acc = 0xFF \<longrightarrow> debounced_exit cfg (evData ev) bv w1)
     \<and> (acc \<noteq> 0 \<and> acc \<noteq> 0xFF
          \<and> \<not> TM t (db_tmrMyStateTimer (debounce w) (evData ev))
          \<longrightarrow> operating (evData ev) acc w1)"
proof -
  let ?b = "evData ev"
  let ?w = "w\<lparr>Cwsw_ClockTics := t\<rparr>"
  have ph': "db_statephase (debounce ?w) ?b = kStateOperational" using ph by simp
  have rd': "di_read_next_button_input_bit ?b (di ?w) = Inr (bv, d')" using rd by simp
  have z: "acc = 0 \<Longrightarrow> \<not> bv"
    using acc step_zero_bit [of "db_read_bits (debounce w) ?b" bv] by simp
  have f: "acc = 0xFF \<Longrightarrow> bv"
    using acc step_ff_bit [of "db_read_bits (debounce w) ?b" bv] by simp
  from stDebounceButton_operational_step [OF b ph' rd', of cfg extra]
  obtain r where
    r: "stDebounceButton cfg (Some ev) (Some extra) ?w = Inr r"
    and rdi: "di (sr_world r) = d'"
    and rtm: "db_tmrMyStateTimer (debounce (sr_world r)) ?b = db_tmrMyStateTimer (debounce w) ?b"
    and racc: "db_read_bits (debounce (sr_world r)) ?b = acc"
    and rcase: "if acc = 0 then
              db_statephase (debounce (sr_world r)) ?b = kStateExit
              \<and> db_evId (debounce (sr_world r)) ?b = evBtnReleased cfg
              \<and> db_reason3 (debounce (sr_world r)) ?b = kReasonDebounced
            else if acc = 0xFF then
              db_statephase (debounce (sr_world r)) ?b = kStateExit
              \<and> db_evId (debounce (sr_world r)) ?b = evBntPressed cfg
              \<and> db_reason3 (debounce (sr_world r)) ?b = kReasonDebounced
            else if TM t (db_tmrMyStateTimer (debounce w) ?b) then
              db_statephase (debounce (sr_world r)) ?b = kStateExit
            else
              db_statephase (debounce (sr_world r)) ?b = kStateOperational"
    using acc by (auto simp add: Let_def)
  have run1: "handler_ticks cfg h ev extra [t] w = Inr (sr_world r)"
    using r handler_ticks_debounce [OF h] by simp
  have e0: "acc = 0 \<Longrightarrow> debounced_exit cfg ?b bv (sr_world r)"
    using rcase racc z by (simp add: debounced_exit_def)
  have e1: "acc = 0xFF \<Longrightarrow> debounced_exit cfg ?b bv (sr_world r)"
    using rcase racc f by (simp add: debounced_exit_def)
  have st: "acc \<noteq> 0 \<Longrightarrow> acc \<noteq> 0xFF \<Longrightarrow> \<not> TM t (db_tmrMyStateTimer (debounce w) ?b)
       \<Longrightarrow> operating ?b acc (sr_world r)"
    using rcase racc by (simp add: operating_def)
  show ?thesis using run1 rdi rtm racc e0 e1 st by blast
qed


lemma debounce_run_to_exit:
  assumes h: "h = pf_stDebouncePress \<or> h = pf_stDebounceRelease"
    and b: "evData ev < kBoardNumButtons"
  shows "ts \<noteq> []
    \<Longrightarrow> operating (evData ev) a w
    \<Longrightarrow> di_feeds (di w) (evData ev) bv (length ts)
    \<Longrightarrow> \<forall>t\<in>set (butlast ts). \<not> TM t (db_tmrMyStateTimer (debounce w) (evData ev))
    \<Longrightarrow> shift_in a bv (length ts) = (if bv then 0xFF else 0)
    \<Longrightarrow> \<exists>k w'. 1 \<le> k \<and> k \<le> length ts
          \<and> handler_ticks cfg h ev extra (take k ts) w = Inr w'
          \<and> debounced_exit cfg (evData ev) bv w'
          \<and> db_read_bits (debounce w') (evData ev) = shift_in a bv k
          \<and> (\<forall>j<k. \<exists>wj. handler_ticks cfg h ev extra (take j ts) w = Inr wj
                \<and> operating (evData ev) (shift_in a bv j) wj)"
proof (induction ts arbitrary: w a)
  case Nil
  then show ?case by simp
next
  case (Cons t ts)
  let ?b = "evData ev"
  let ?acc = "push_bit 1 a OR of_bool bv"
  have ph: "db_statephase (debounce w) ?b = kStateOperational"
    and a: "db_read_bits (debounce w) ?b = a"
    using Cons.prems(2) by (simp_all add: operating_def)
  from Cons.prems(3) obtain d' where
    rd: "di_read_next_button_input_bit ?b (di w) = Inr (bv, d')"
    and feeds': "di_feeds d' ?b bv (length ts)"
    by (auto split: sum.splits)
  have acc: "?acc = push_bit 1 (db_read_bits (debounce w) ?b) OR of_bool bv"
    using a by simp
  from debounce_operate_cases [OF h b ph rd acc, of cfg extra t]
  obtain w1 where
    run1: "handler_ticks cfg h ev extra [t] w = Inr w1"
    and w1di: "di w1 = d'"
    and w1tm: "db_tmrMyStateTimer (debounce w1) ?b = db_tmrMyStateTimer (debounce w) ?b"
    and w1acc: "db_read_bits (debounce w1) ?b = ?acc"
    and w1exit: "?acc = 0 \<or> ?acc = 0xFF \<Longrightarrow> debounced_exit cfg ?b bv w1"
    and w1stay: "?acc \<noteq> 0 \<Longrightarrow> ?acc \<noteq> 0xFF
        \<Longrightarrow> \<not> TM t (db_tmrMyStateTimer (debounce w) ?b) \<Longrightarrow> operating ?b ?acc w1"
    by blast
  have step: "\<And>us w'. handler_ticks cfg h ev extra us w1 = Inr w'
      \<Longrightarrow> handler_ticks cfg h ev extra (t # us) w = Inr w'"
    using run1 by (simp split: sum.splits)
  have j0: "handler_ticks cfg h ev extra (take 0 (t # ts)) w = Inr w
      \<and> operating ?b (shift_in a bv 0) w"
    using Cons.prems(2) by simp
  show ?case
  proof (cases "?acc = 0 \<or> ?acc = 0xFF")
    case True
    have r1: "handler_ticks cfg h ev extra (take 1 (t # ts)) w = Inr w1" using run1 by simp
    have a1: "db_read_bits (debounce w1) ?b = shift_in a bv 1" using w1acc by simp
    have q1: "\<forall>j<(1::nat). \<exists>wj. handler_ticks cfg h ev extra (take j (t # ts)) w = Inr wj
                \<and> operating ?b (shift_in a bv j) wj"
      using j0 by (simp only: less_one) blast
    have l1: "(1::nat) \<le> 1 \<and> 1 \<le> length (t # ts)" by simp
    show ?thesis using l1 r1 w1exit [OF True] a1 q1 by blast
  next
    case False
    then have nz: "?acc \<noteq> 0" and nf: "?acc \<noteq> 0xFF" by simp_all
    have ne: "ts \<noteq> []"
    proof
      assume "ts = []"
      then have "?acc = (if bv then 0xFF else 0)" using Cons.prems(5) by simp
      then show False using False by (simp split: if_splits)
    qed
    have ntm: "\<not> TM t (db_tmrMyStateTimer (debounce w) ?b)"
      using Cons.prems(4) ne by simp
    have op1: "operating ?b ?acc w1" using w1stay [OF nz nf ntm] .
    have q3: "di_feeds (di w1) ?b bv (length ts)" using feeds' w1di by simp
    have q4: "\<forall>t\<in>set (butlast ts). \<not> TM t (db_tmrMyStateTimer (debounce w1) ?b)"
      using Cons.prems(4) ne w1tm by simp
    have q5: "shift_in ?acc bv (length ts) = (if bv then 0xFF else 0)"
      using Cons.prems(5) by simp
    from Cons.IH [OF ne op1 q3 q4 q5] obtain k w' where
      k: "1 \<le> k" "k \<le> length ts"
      and rk: "handler_ticks cfg h ev extra (take k ts) w1 = Inr w'"
      and ex: "debounced_exit cfg ?b bv w'"
      and ak: "db_read_bits (debounce w') ?b = shift_in ?acc bv k"
      and js: "\<forall>j<k. \<exists>wj. handler_ticks cfg h ev extra (take j ts) w1 = Inr wj
                \<and> operating ?b (shift_in ?acc bv j) wj"
      by blast
    have runk: "handler_ticks cfg h ev extra (take (Suc k) (t # ts)) w = Inr w'"
      using step [OF rk] by simp
    have acck: "db_read_bits (debounce w') ?b = shift_in a bv (Suc k)"
      using ak by simp
    have jall: "\<forall>j<Suc k. \<exists>wj. handler_ticks cfg h ev extra (take j (t # ts)) w = Inr wj
                \<and> operating ?b (shift_in a bv j) wj"
    proof (intro allI impI)
      fix j assume jl: "j < Suc k"
      show "\<exists>wj. handler_ticks cfg h ev extra (take j (t # ts)) w = Inr wj
                \<and> operating ?b (shift_in a bv j) wj"
      proof (cases j)
        case 0
        then show ?thesis using j0 by blast
      next
        case (Suc j')
        then have "j' < k" using jl by simp
        from js [rule_format, OF this] obtain wj where
          wj: "handler_ticks cfg h ev extra (take j' ts) w1 = Inr wj"
          "operating ?b (shift_in ?acc bv j') wj"
          by blast
        have "handler_ticks cfg h ev extra (take j (t # ts)) w = Inr wj"
          using step [OF wj(1)] Suc by simp
        moreover have "operating ?b (shift_in a bv j) wj" using wj(2) Suc by simp
        ultimately show ?thesis by blast
      qed
    qed
    have lk: "1 \<le> Suc k \<and> Suc k \<le> length (t # ts)" using k by simp
    show ?thesis using lk runk ex acck jall by blast
  qed
qed


lemma debounce_start:
  assumes h: "h = pf_stDebouncePress \<or> h = pf_stDebounceRelease"
    and b: "evData ev < kBoardNumButtons"
    and ph: "db_statephase (debounce w) (evData ev) \<noteq> kStateExit"
    and pre: "pre = (if db_statephase (debounce w) (evData ev) = kStateOperational
                     then [] else [t0])"
    and a0: "a0 = (if db_statephase (debounce w) (evData ev) = kStateOperational
                   then db_read_bits (debounce w) (evData ev) else 1)"
    and tmr: "tmr = (if db_statephase (debounce w) (evData ev) = kStateOperational
                     then db_tmrMyStateTimer (debounce w) (evData ev)
                     else Cwsw_Clock_Set t0 (kTmButtonDebounceTime cfg))"
  shows "\<exists>ws. (\<forall>xs. handler_ticks cfg h ev extra (pre @ xs) w
                    = handler_ticks cfg h ev extra xs ws)
          \<and> operating (evData ev) a0 ws
          \<and> db_tmrMyStateTimer (debounce ws) (evData ev) = tmr
          \<and> di ws = di w"
proof (cases "db_statephase (debounce w) (evData ev) = kStateOperational")
  case True
  have "(\<forall>xs. handler_ticks cfg h ev extra (pre @ xs) w
                    = handler_ticks cfg h ev extra xs w)
          \<and> operating (evData ev) a0 w
          \<and> db_tmrMyStateTimer (debounce w) (evData ev) = tmr
          \<and> di w = di w"
    using True pre a0 tmr by (simp add: operating_def)
  then show ?thesis by blast
next
  case False
  let ?b = "evData ev"
  let ?w0 = "w\<lparr>Cwsw_ClockTics := t0\<rparr>"
  have p1: "db_statephase (debounce ?w0) ?b \<noteq> kStateOperational" using False by simp
  have p2: "db_statephase (debounce ?w0) ?b \<noteq> kStateExit" using ph by simp
  from stDebounceButton_entry_step [OF b p1 p2, of cfg extra]
  obtain r where
    r: "stDebounceButton cfg (Some ev) (Some extra) ?w0 = Inr r"
    and rph: "db_statephase (debounce (sr_world r)) ?b = kStateOperational"
    and racc: "db_read_bits (debounce (sr_world r)) ?b = 1"
    and rtm: "db_tmrMyStateTimer (debounce (sr_world r)) ?b
               = Cwsw_Clock_Set t0 (kTmButtonDebounceTime cfg)"
    and rdi: "di (sr_world r) = di w"
    by auto
  have run: "\<forall>xs. handler_ticks cfg h ev extra (pre @ xs) w
                    = handler_ticks cfg h ev extra xs (sr_world r)"
    using r pre False handler_ticks_debounce [OF h] by simp
  have op: "operating ?b a0 (sr_world r)"
    using rph racc a0 False by (simp add: operating_def)
  have tm: "db_tmrMyStateTimer (debounce (sr_world r)) ?b = tmr"
    using rtm tmr False by simp
  show ?thesis using run op tm rdi by blast
qed

text \<open>
  Claim C1, amended. A button is in a debounce state (DebouncePress or
  DebounceRelease): either the state has just been entered, and the first call, at the
  tick \<open>t0\<close>, is the entry call, which seeds the accumulator to 1 and arms the debounce
  timer; or the routine is in its operate phase with any accumulator, left by whatever
  bits were read before. From there the constant bit \<open>bv\<close> is fed for 8 sampling ticks
  \<open>ts\<close>, and the debounce timer does not expire before the last of them. Then the
  routine leaves its operate phase within 8 operate cycles, at some cycle \<open>k\<close> from 1
  to 8: the accumulator has reached 0xFF for the bit 1 and 0x00 for the bit 0, and the
  exit call that follows writes back the event Pressed or Released, the button index
  and the reason Debounced. Before that cycle the routine stays in its operate phase,
  and after \<open>j\<close> operate cycles the accumulator is the starting value (the seed 1 after an
  entry) with \<open>bv\<close> shifted in \<open>j\<close> times: each cycle shifts it left by one position and
  ORs the newly read bit in.
\<close>

theorem debounce_convergence:
  assumes h: "h = pf_stDebouncePress \<or> h = pf_stDebounceRelease"
    and b: "evData ev < kBoardNumButtons"
    and ph: "db_statephase (debounce w) (evData ev) \<noteq> kStateExit"
    and pre: "pre = (if db_statephase (debounce w) (evData ev) = kStateOperational
                     then [] else [t0])"
    and a0: "a0 = (if db_statephase (debounce w) (evData ev) = kStateOperational
                   then db_read_bits (debounce w) (evData ev) else 1)"
    and tmr: "tmr = (if db_statephase (debounce w) (evData ev) = kStateOperational
                     then db_tmrMyStateTimer (debounce w) (evData ev)
                     else Cwsw_Clock_Set t0 (kTmButtonDebounceTime cfg))"
    and len: "length ts = 8"
    and feeds: "di_feeds (di w) (evData ev) bv 8"
    and ntm: "\<forall>t\<in>set (butlast ts). \<not> TM t tmr"
  shows "\<exists>k w'. 1 \<le> k \<and> k \<le> 8
          \<and> handler_ticks cfg h ev extra (pre @ take k ts) w = Inr w'
          \<and> db_statephase (debounce w') (evData ev) = kStateExit
          \<and> db_read_bits (debounce w') (evData ev) = shift_in a0 bv k
          \<and> db_read_bits (debounce w') (evData ev) = (if bv then 0xFF else 0)
          \<and> (\<exists>r. call_pfStateHandler cfg h (Some ev) (Some extra) w' = Inr r
                \<and> sr_rc r = kStateFinished
                \<and> sr_ev r = Some \<lparr>evId = (if bv then evBntPressed cfg else evBtnReleased cfg),
                                  evData = evData ev\<rparr>
                \<and> sr_extra r = Some kReasonDebounced)
          \<and> (\<forall>j<k. \<exists>wj. handler_ticks cfg h ev extra (pre @ take j ts) w = Inr wj
                \<and> db_statephase (debounce wj) (evData ev) = kStateOperational
                \<and> db_read_bits (debounce wj) (evData ev) = shift_in a0 bv j)"
proof -
  let ?b = "evData ev"
  from debounce_start [OF h b ph pre a0 tmr, of extra] obtain ws where
    start: "\<forall>xs. handler_ticks cfg h ev extra (pre @ xs) w
                    = handler_ticks cfg h ev extra xs ws"
    and op: "operating ?b a0 ws"
    and wtm: "db_tmrMyStateTimer (debounce ws) ?b = tmr"
    and wdi: "di ws = di w"
    by blast
  have ne: "ts \<noteq> []" using len by auto
  have f: "di_feeds (di ws) ?b bv (length ts)" using feeds wdi len by simp
  have nt: "\<forall>t\<in>set (butlast ts). \<not> TM t (db_tmrMyStateTimer (debounce ws) ?b)"
    using ntm wtm by simp
  have s8: "shift_in a0 bv (length ts) = (if bv then 0xFF else 0)"
    using len shift_in_8 [of a0 bv] by simp
  from debounce_run_to_exit [OF h b ne op f nt s8, of cfg extra] obtain k w' where
    k: "1 \<le> k" "k \<le> length ts"
    and rk: "handler_ticks cfg h ev extra (take k ts) ws = Inr w'"
    and ex: "debounced_exit cfg ?b bv w'"
    and ak: "db_read_bits (debounce w') ?b = shift_in a0 bv k"
    and js: "\<forall>j<k. \<exists>wj. handler_ticks cfg h ev extra (take j ts) ws = Inr wj
                \<and> operating ?b (shift_in a0 bv j) wj"
    by blast
  have eph: "db_statephase (debounce w') ?b = kStateExit"
    and eacc: "db_read_bits (debounce w') ?b = (if bv then 0xFF else 0)"
    and eev: "db_evId (debounce w') ?b = (if bv then evBntPressed cfg else evBtnReleased cfg)"
    and ere: "db_reason3 (debounce w') ?b = kReasonDebounced"
    using ex by (simp_all add: debounced_exit_def)
  have c1: "1 \<le> k \<and> k \<le> 8" using k len by simp
  have c2: "handler_ticks cfg h ev extra (pre @ take k ts) w = Inr w'"
    using start rk by simp
  have c3: "\<exists>r. call_pfStateHandler cfg h (Some ev) (Some extra) w' = Inr r
                \<and> sr_rc r = kStateFinished
                \<and> sr_ev r = Some \<lparr>evId = (if bv then evBntPressed cfg else evBtnReleased cfg),
                                  evData = ?b\<rparr>
                \<and> sr_extra r = Some kReasonDebounced"
    using stDebounceButton_exit_step [OF b eph, of cfg extra] handler_ticks_debounce [OF h]
      eev ere by simp
  have c4: "\<forall>j<k. \<exists>wj. handler_ticks cfg h ev extra (pre @ take j ts) w = Inr wj
                \<and> db_statephase (debounce wj) ?b = kStateOperational
                \<and> db_read_bits (debounce wj) ?b = shift_in a0 bv j"
    using js start by (simp add: operating_def)
  show ?thesis using c1 c2 eph ak eacc c3 c4 by blast
qed


text \<open>Two runs for button 2. In DebouncePress, in the operate phase with the accumulator
  0xAA after noise and a timer maturing at 600: eight 1 bits at the ticks 510 to 580.
  In DebounceRelease, entered at tick 0 with a debounce time of 600 ticks: eight 0 bits
  at the ticks 10 to 80.\<close>

theorem debounce_convergence_witness:
  "(pf_stDebouncePress = pf_stDebouncePress \<or> pf_stDebouncePress = pf_stDebounceRelease)
   \<and> evData \<lparr>evId = 1, evData = 2\<rparr> < kBoardNumButtons
   \<and> db_statephase (debounce world_after_noise) 2 = kStateOperational
   \<and> db_read_bits (debounce world_after_noise) 2 = 0xAA
   \<and> db_tmrMyStateTimer (debounce world_after_noise) 2 = 600
   \<and> length [510, 520, 530, 540, 550, 560, 570, 580 :: int] = 8
   \<and> di_feeds (di world_after_noise) 2 True 8
   \<and> list_all (\<lambda>t. \<not> TM t 600) (butlast [510, 520, 530, 540, 550, 560, 570, 580])
   \<and> (\<exists>k w'. 1 \<le> k \<and> k \<le> 8
          \<and> handler_ticks cfg_example pf_stDebouncePress \<lparr>evId = 1, evData = 2\<rparr> 0
                ([] @ take k [510, 520, 530, 540, 550, 560, 570, 580]) world_after_noise = Inr w'
          \<and> db_statephase (debounce w') 2 = kStateExit
          \<and> db_read_bits (debounce w') 2 = shift_in 0xAA True k
          \<and> db_read_bits (debounce w') 2 = 0xFF
          \<and> (\<exists>r. call_pfStateHandler cfg_example pf_stDebouncePress
                     (Some \<lparr>evId = 1, evData = 2\<rparr>) (Some 0) w' = Inr r
                \<and> sr_rc r = kStateFinished
                \<and> sr_ev r = Some \<lparr>evId = evBntPressed cfg_example, evData = 2\<rparr>
                \<and> sr_extra r = Some kReasonDebounced)
          \<and> (\<forall>j<k. \<exists>wj. handler_ticks cfg_example pf_stDebouncePress \<lparr>evId = 1, evData = 2\<rparr> 0
                ([] @ take j [510, 520, 530, 540, 550, 560, 570, 580]) world_after_noise = Inr wj
                \<and> db_statephase (debounce wj) 2 = kStateOperational
                \<and> db_read_bits (debounce wj) 2 = shift_in 0xAA True j))
   \<and> db_statephase (debounce world_release) 2 = kStateUninit
   \<and> di_feeds (di world_release) 2 False 8
   \<and> list_all (\<lambda>t. \<not> TM t (Cwsw_Clock_Set 0 (kTmButtonDebounceTime cfg_example)))
        (butlast [10, 20, 30, 40, 50, 60, 70, 80])
   \<and> (\<exists>k w'. 1 \<le> k \<and> k \<le> 8
          \<and> handler_ticks cfg_example pf_stDebounceRelease \<lparr>evId = 1, evData = 2\<rparr> 0
                ([0] @ take k [10, 20, 30, 40, 50, 60, 70, 80]) world_release = Inr w'
          \<and> db_statephase (debounce w') 2 = kStateExit
          \<and> db_read_bits (debounce w') 2 = shift_in 1 False k
          \<and> db_read_bits (debounce w') 2 = 0
          \<and> (\<exists>r. call_pfStateHandler cfg_example pf_stDebounceRelease
                     (Some \<lparr>evId = 1, evData = 2\<rparr>) (Some 0) w' = Inr r
                \<and> sr_rc r = kStateFinished
                \<and> sr_ev r = Some \<lparr>evId = evBtnReleased cfg_example, evData = 2\<rparr>
                \<and> sr_extra r = Some kReasonDebounced)
          \<and> (\<forall>j<k. \<exists>wj. handler_ticks cfg_example pf_stDebounceRelease \<lparr>evId = 1, evData = 2\<rparr> 0
                ([0] @ take j [10, 20, 30, 40, 50, 60, 70, 80]) world_release = Inr wj
                \<and> db_statephase (debounce wj) 2 = kStateOperational
                \<and> db_read_bits (debounce wj) 2 = shift_in 1 False j))"
proof -
  let ?ev = "\<lparr>evId = 1, evData = 2\<rparr> :: tEvQ_Event"
  let ?ts = "[510, 520, 530, 540, 550, 560, 570, 580] :: int list"
  let ?us = "[10, 20, 30, 40, 50, 60, 70, 80] :: int list"
  have hp: "pf_stDebouncePress = pf_stDebouncePress \<or> pf_stDebouncePress = pf_stDebounceRelease"
    by simp
  have hr: "pf_stDebounceRelease = pf_stDebouncePress \<or> pf_stDebounceRelease = pf_stDebounceRelease"
    by simp
  have b: "evData ?ev < kBoardNumButtons" by (simp add: kBoardNumButtons_def)
  have ph: "db_statephase (debounce world_after_noise) 2 = kStateOperational"
    and acc: "db_read_bits (debounce world_after_noise) 2 = 0xAA"
    and tmv: "db_tmrMyStateTimer (debounce world_after_noise) 2 = 600"
    by (simp_all add: world_after_noise_def)
  have ph1: "db_statephase (debounce world_after_noise) (evData ?ev) \<noteq> kStateExit"
    using ph by simp
  have pre1: "[] = (if db_statephase (debounce world_after_noise) (evData ?ev) = kStateOperational
                    then [] else [0 :: int])"
    using ph by simp
  have a1: "0xAA = (if db_statephase (debounce world_after_noise) (evData ?ev) = kStateOperational
                    then db_read_bits (debounce world_after_noise) (evData ?ev) else 1)"
    using ph acc by simp
  have t1: "600 = (if db_statephase (debounce world_after_noise) (evData ?ev) = kStateOperational
                   then db_tmrMyStateTimer (debounce world_after_noise) (evData ?ev)
                   else Cwsw_Clock_Set 0 (kTmButtonDebounceTime cfg_example))"
    using ph tmv by simp
  have len1: "length ?ts = 8" by simp
  have f1: "di_feeds (di world_after_noise) (evData ?ev) True 8" by code_simp
  have n1: "\<forall>t\<in>set (butlast ?ts). \<not> TM t 600"
    by (simp add: TM_def Cwsw_GetTimeLeft_def)
  have n1': "list_all (\<lambda>t. \<not> TM t 600) (butlast ?ts)"
    using n1 by (simp only: list_all_iff)
  have pu: "db_statephase (debounce world_release) 2 = kStateUninit"
    by (simp add: world_release_def world_init_def)
  have ph2: "db_statephase (debounce world_release) (evData ?ev) \<noteq> kStateExit"
    using pu by (simp add: kStateUninit_def kStateExit_def)
  have nop: "db_statephase (debounce world_release) (evData ?ev) \<noteq> kStateOperational"
    using pu by (simp add: kStateUninit_def kStateOperational_def)
  have pre2: "[0] = (if db_statephase (debounce world_release) (evData ?ev) = kStateOperational
                    then [] else [0 :: int])"
    using nop by simp
  have a2: "1 = (if db_statephase (debounce world_release) (evData ?ev) = kStateOperational
                    then db_read_bits (debounce world_release) (evData ?ev) else 1)"
    using nop by simp
  have t2: "Cwsw_Clock_Set 0 (kTmButtonDebounceTime cfg_example)
             = (if db_statephase (debounce world_release) (evData ?ev) = kStateOperational
                   then db_tmrMyStateTimer (debounce world_release) (evData ?ev)
                   else Cwsw_Clock_Set 0 (kTmButtonDebounceTime cfg_example))"
    using nop by simp
  have len2: "length ?us = 8" by simp
  have f2: "di_feeds (di world_release) (evData ?ev) False 8" by code_simp
  have n2: "\<forall>t\<in>set (butlast ?us).
         \<not> TM t (Cwsw_Clock_Set 0 (kTmButtonDebounceTime cfg_example))"
    by (simp add: TM_def Cwsw_GetTimeLeft_def Cwsw_Clock_Set_def kTmButtonDebounceTime_def
        cfg_example_def)
  have n2': "list_all (\<lambda>t. \<not> TM t (Cwsw_Clock_Set 0 (kTmButtonDebounceTime cfg_example)))
        (butlast ?us)"
    using n2 by (simp only: list_all_iff)
  note c1 = debounce_convergence [OF hp b ph1 pre1 a1 t1 len1 f1 n1, of 0]
  note c2 = debounce_convergence [OF hr b ph2 pre2 a2 t2 len2 f2 n2, of 0]
  show ?thesis
    using hp b ph acc tmv len1 f1 n1' pu f2 n2' c1 c2 by simp
qed

text \<open>
  Claim C1 as stated has no condition on the debounce timer. Button 2 enters
  DebouncePress at tick 0 with a debounce time of 600 ticks and is called every 10
  ticks. Its input is noise for 54 operate cycles; after them the routine is in its
  operate phase with the accumulator 0xAA, and the next eight reads all return 1. At
  tick 600, the 6th of these 1 bits, the accumulator is 0xBF and the timer has expired:
  the routine leaves its operate phase with the reason Timeout, and the exit call writes
  back the inbound event id and the reason Timeout, not Pressed and Debounced.
\<close>

theorem debounce_timer_counterexample:
  "map_sum id (debounce_view 2)
     (handler_ticks cfg_example pf_stDebouncePress \<lparr>evId = 1, evData = 2\<rparr> 0 (ticks_10ms 55)
        world_noise_press)
     = Inr (kStateOperational, 0xAA, evButton_Task cfg_example, kReasonNone)
   \<and> map_sum id (di_feeds_in 2 True 8)
     (handler_ticks cfg_example pf_stDebouncePress \<lparr>evId = 1, evData = 2\<rparr> 0 (ticks_10ms 55)
        world_noise_press)
     = Inr True
   \<and> map_sum id (debounce_view 2)
     (handler_ticks cfg_example pf_stDebouncePress \<lparr>evId = 1, evData = 2\<rparr> 0 (ticks_10ms 61)
        world_noise_press)
     = Inr (kStateExit, 0xBF, evButton_Task cfg_example, kReasonTimeout)
   \<and> exit_triple
     (call_after_ticks cfg_example pf_stDebouncePress \<lparr>evId = 1, evData = 2\<rparr> 0 (ticks_10ms 61)
        world_noise_press)
     = Some (kStateFinished, Some \<lparr>evId = evButton_Task cfg_example, evData = 2\<rparr>,
             Some kReasonTimeout)"
  by code_simp

text \<open>
  Claim C10. In an operate cycle of a debounce state (DebouncePress or DebounceRelease)
  whose debounce timer has already expired, an accumulator that reaches 0x00 or 0xFF
  ends the operate phase with the reason Debounced: the exit call that follows writes
  back the event Released (for 0x00) or Pressed (for 0xFF) and the reason Debounced, not
  Timeout.
\<close>

theorem debounce_terminal_before_timeout:
  assumes h: "h = pf_stDebouncePress \<or> h = pf_stDebounceRelease"
    and b: "evData ev < kBoardNumButtons"
    and ph: "db_statephase (debounce w) (evData ev) = kStateOperational"
    and rd: "di_read_next_button_input_bit (evData ev) (di w) = Inr (thisbit, d')"
    and acc: "acc = push_bit 1 (db_read_bits (debounce w) (evData ev)) OR of_bool thisbit"
    and tp: "acc = 0 \<or> acc = 0xFF"
    and tm: "TM (Cwsw_ClockTics w) (db_tmrMyStateTimer (debounce w) (evData ev))"
  shows "\<exists>r. call_pfStateHandler cfg h (Some ev) (Some extra) w = Inr r
          \<and> sr_rc r = kStateExit
          \<and> db_read_bits (debounce (sr_world r)) (evData ev) = acc
          \<and> (\<exists>r'. call_pfStateHandler cfg h (Some ev) (Some extra) (sr_world r) = Inr r'
                \<and> sr_ev r' = Some \<lparr>evId = (if acc = 0 then evBtnReleased cfg
                                              else evBntPressed cfg),
                                     evData = evData ev\<rparr>
                \<and> sr_extra r' = Some kReasonDebounced)"
proof -
  let ?b = "evData ev"
  from stDebounceButton_operational_step [OF b ph rd, of cfg extra] acc tp
  obtain r where
    r: "stDebounceButton cfg (Some ev) (Some extra) w = Inr r"
    and rc: "sr_rc r = db_statephase (debounce (sr_world r)) ?b"
    and racc: "db_read_bits (debounce (sr_world r)) ?b = acc"
    and rph: "db_statephase (debounce (sr_world r)) ?b = kStateExit"
    and rev: "db_evId (debounce (sr_world r)) ?b
               = (if acc = 0 then evBtnReleased cfg else evBntPressed cfg)"
    and rre: "db_reason3 (debounce (sr_world r)) ?b = kReasonDebounced"
    by (auto simp add: Let_def)
  show ?thesis
    using r rc racc rph rev rre stDebounceButton_exit_step [OF b rph, of cfg extra]
      handler_ticks_debounce [OF h]
    by simp
qed

theorem debounce_terminal_before_timeout_witness:
  "(pf_stDebouncePress = pf_stDebouncePress \<or> pf_stDebouncePress = pf_stDebounceRelease)
   \<and> evData \<lparr>evId = 1, evData = 2\<rparr> < kBoardNumButtons
   \<and> db_statephase (debounce world_late) (evData \<lparr>evId = 1, evData = 2\<rparr>) = kStateOperational
   \<and> di_read_next_button_input_bit (evData \<lparr>evId = 1, evData = 2\<rparr>) (di world_late)
       = Inr (True, di_init\<lparr>buttoninputbits := (\<lambda>_. 0)(2 := 0x7F)\<rparr>)
   \<and> (0xFF :: u8) = push_bit 1 (db_read_bits (debounce world_late)
                        (evData \<lparr>evId = 1, evData = 2\<rparr>)) OR of_bool True
   \<and> ((0xFF :: u8) = 0 \<or> (0xFF :: u8) = 0xFF)
   \<and> TM (Cwsw_ClockTics world_late)
        (db_tmrMyStateTimer (debounce world_late) (evData \<lparr>evId = 1, evData = 2\<rparr>))
   \<and> (\<exists>r. call_pfStateHandler cfg_example pf_stDebouncePress (Some \<lparr>evId = 1, evData = 2\<rparr>)
              (Some 0) world_late = Inr r
          \<and> sr_rc r = kStateExit
          \<and> db_read_bits (debounce (sr_world r)) 2 = 0xFF
          \<and> (\<exists>r'. call_pfStateHandler cfg_example pf_stDebouncePress
                      (Some \<lparr>evId = 1, evData = 2\<rparr>) (Some 0) (sr_world r) = Inr r'
                \<and> sr_ev r' = Some \<lparr>evId = evBntPressed cfg_example, evData = 2\<rparr>
                \<and> sr_extra r' = Some kReasonDebounced))"
proof -
  let ?ev = "\<lparr>evId = 1, evData = 2\<rparr> :: tEvQ_Event"
  have h: "pf_stDebouncePress = pf_stDebouncePress \<or> pf_stDebouncePress = pf_stDebounceRelease"
    by simp
  have b: "evData ?ev < kBoardNumButtons" by (simp add: kBoardNumButtons_def)
  have ph: "db_statephase (debounce world_late) (evData ?ev) = kStateOperational"
    by (simp add: world_late_def)
  have rd: "di_read_next_button_input_bit (evData ?ev) (di world_late)
       = Inr (True, di_init\<lparr>buttoninputbits := (\<lambda>_. 0)(2 := 0x7F)\<rparr>)"
    by (simp add: world_late_def world_press_def world_init_def di_init_def
        di_read_next_button_input_bit_def kBoardNumButtons_def Let_def)
  have acc: "(0xFF :: u8) = push_bit 1 (db_read_bits (debounce world_late) (evData ?ev))
                OR of_bool True"
    by (simp add: world_late_def)
  have tp: "(0xFF :: u8) = 0 \<or> (0xFF :: u8) = 0xFF" by simp
  have tm: "TM (Cwsw_ClockTics world_late) (db_tmrMyStateTimer (debounce world_late) (evData ?ev))"
    by (simp add: world_late_def TM_def Cwsw_GetTimeLeft_def)
  from debounce_terminal_before_timeout [OF h b ph rd acc tp tm, of cfg_example 0]
  show ?thesis using h b ph rd acc tp tm by simp
qed

section \<open>Independence of the buttons\<close>

text \<open>A call for one button leaves the entries of every other button alone, in every
  state function but \<open>stButtonStuck\<close>; there the entries of index 0 are excepted too.\<close>

lemma di_read_other_stream:
  "di_read_next_button_input_bit idx d = Inr (retval, d') \<Longrightarrow> j \<noteq> idx
     \<Longrightarrow> buttoninputbits d' j = buttoninputbits d j"
  by (auto simp add: di_read_next_button_input_bit_def Let_def split: if_splits)

lemma stDebounceButton_frame:
  "stDebounceButton cfg (Some ev) pextra w = Inr r \<Longrightarrow> j \<noteq> evData ev
     \<Longrightarrow> button_view j (sr_world r) = button_view j w"
  by (auto simp add: stDebounceButton_def Let_def button_view_def stDebounceButton_entry_def
      stDebounceButton_operational_def di_read_other_stream
      split: option.splits if_splits sum.splits)

lemma stStart_frame:
  "stStart (Some ev) pextra w = Inr r \<Longrightarrow> j \<noteq> evData ev
     \<Longrightarrow> button_view j (sr_world r) = button_view j w"
  by (auto simp add: stStart_def Let_def button_view_def
      split: option.splits if_splits sum.splits)

lemma stButtonReleased_frame:
  "stButtonReleased (Some ev) pextra w = Inr r \<Longrightarrow> j \<noteq> evData ev
     \<Longrightarrow> button_view j (sr_world r) = button_view j w"
  by (auto simp add: stButtonReleased_def Let_def button_view_def di_read_other_stream
      split: option.splits if_splits sum.splits)

lemma stButtonPressed_frame:
  "stButtonPressed cfg (Some ev) pextra w = Inr r \<Longrightarrow> j \<noteq> evData ev
     \<Longrightarrow> button_view j (sr_world r) = button_view j w"
  by (auto simp add: stButtonPressed_def Let_def button_view_def stButtonPressed_entry_def
      stButtonPressed_operational_def di_read_other_stream
      split: option.splits if_splits sum.splits)

lemma stButtonStuck_frame:
  "stButtonStuck (Some ev) pextra w = Inr r \<Longrightarrow> j \<noteq> evData ev \<Longrightarrow> j \<noteq> 0
     \<Longrightarrow> button_view j (sr_world r) = button_view j w"
  by (auto simp add: stButtonStuck_def Let_def button_view_def di_read_other_stream
      split: option.splits if_splits sum.splits)

lemma handler_frame:
  assumes "call_pfStateHandler cfg h (Some ev) pextra w = Inr r"
    and "j \<noteq> evData ev"
    and "h = pf_stButtonStuck \<longrightarrow> j \<noteq> 0"
  shows "button_view j (sr_world r) = button_view j w"
  using assms
  by (cases h)
     (simp_all add: stDebouncePress_def stDebounceRelease_def stDebounceButton_frame
        stStart_frame stButtonReleased_frame stButtonPressed_frame stButtonStuck_frame)

section \<open>The button task and its alarm\<close>

lemma body_tmrstate:
  "tmrstate (Btn_tmr_ButtonRead (fst (Btn_tsk_ButtonRead_body cfg sme ev extra idx (t, m))))
     = kTmrState_Disabled
   \<longleftrightarrow> tmrstate (Btn_tmr_ButtonRead t) = kTmrState_Disabled
       \<or> currentstate (fst (Btn_tsk_ButtonRead_body cfg sme ev extra idx (t, m))) idx = None"
  by (auto simp add: Btn_tsk_ButtonRead_body_def Let_def split: prod.splits if_splits)

lemma body_currentstate_other:
  "j \<noteq> idx \<Longrightarrow>
   currentstate (fst (Btn_tsk_ButtonRead_body cfg sme ev extra idx (t, m))) j = currentstate t j"
  by (auto simp add: Btn_tsk_ButtonRead_body_def Let_def split: prod.splits if_splits)

lemma of_nat_u32_neq:
  assumes "i < n" and "n < 2 ^ 32"
  shows "(of_nat i :: u32) \<noteq> of_nat n"
proof
  assume "(of_nat i :: u32) = of_nat n"
  then have "unat (of_nat i :: u32) = unat (of_nat n :: u32)" by simp
  then have "i = n" using assms by (simp add: unat_of_nat take_bit_nat_eq_self)
  then show False using assms by simp
qed

lemma loop_currentstate_other:
  "n \<le> k \<Longrightarrow> k < 2 ^ 32 \<Longrightarrow>
   currentstate (fst (Btn_tsk_ButtonRead_loop cfg sme ev extra n st)) (of_nat k)
     = currentstate (fst st) (of_nat k)"
proof (induction n arbitrary: st)
  case 0
  then show ?case by simp
next
  case (Suc n)
  obtain t m where st: "st = (t, m)" by (cases st)
  have ne: "(of_nat k :: u32) \<noteq> of_nat n"
    using of_nat_u32_neq [of n k] Suc.prems by auto
  have "currentstate (fst (Btn_tsk_ButtonRead_loop cfg sme ev extra (Suc n) st)) (of_nat k)
      = currentstate (fst (Btn_tsk_ButtonRead_body cfg sme ev extra (of_nat n) st)) (of_nat k)"
    using Suc.IH [of "Btn_tsk_ButtonRead_body cfg sme ev extra (of_nat n) st"] Suc.prems by simp
  also have "\<dots> = currentstate (fst st) (of_nat k)"
    using body_currentstate_other [OF ne] st by simp
  finally show ?case .
qed

lemma loop_tmrstate:
  "n < 2 ^ 32 \<Longrightarrow>
   tmrstate (Btn_tmr_ButtonRead (fst (Btn_tsk_ButtonRead_loop cfg sme ev extra n st)))
     = kTmrState_Disabled
   \<longleftrightarrow> tmrstate (Btn_tmr_ButtonRead (fst st)) = kTmrState_Disabled
       \<or> (\<exists>i<n. currentstate (fst (Btn_tsk_ButtonRead_loop cfg sme ev extra n st)) (of_nat i) = None)"
proof (induction n arbitrary: st)
  case 0
  then show ?case by simp
next
  case (Suc n)
  obtain t m where st: "st = (t, m)" by (cases st)
  let ?st1 = "Btn_tsk_ButtonRead_body cfg sme ev extra (of_nat n) st"
  let ?fin = "Btn_tsk_ButtonRead_loop cfg sme ev extra (Suc n) st"
  have fin: "?fin = Btn_tsk_ButtonRead_loop cfg sme ev extra n ?st1" by simp
  have n: "n < 2 ^ 32" using Suc.prems by simp
  have keep: "currentstate (fst ?fin) (of_nat n) = currentstate (fst ?st1) (of_nat n)"
    using loop_currentstate_other [of n n cfg sme ev extra ?st1] n fin by simp
  have "tmrstate (Btn_tmr_ButtonRead (fst ?fin)) = kTmrState_Disabled
     \<longleftrightarrow> tmrstate (Btn_tmr_ButtonRead (fst ?st1)) = kTmrState_Disabled
         \<or> (\<exists>i<n. currentstate (fst ?fin) (of_nat i) = None)"
    using Suc.IH [OF n, of ?st1] fin by simp
  also have "\<dots> \<longleftrightarrow> tmrstate (Btn_tmr_ButtonRead (fst st)) = kTmrState_Disabled
         \<or> currentstate (fst ?fin) (of_nat n) = None
         \<or> (\<exists>i<n. currentstate (fst ?fin) (of_nat i) = None)"
    using body_tmrstate [of cfg sme ev extra "of_nat n" t m] st keep by auto
  also have "\<dots> \<longleftrightarrow> tmrstate (Btn_tmr_ButtonRead (fst st)) = kTmrState_Disabled
         \<or> (\<exists>i<Suc n. currentstate (fst ?fin) (of_nat i) = None)"
    by (auto simp add: less_Suc_eq)
  finally show ?case .
qed

text \<open>
  Claim C5, amended. After one pass of the button task over all buttons, the re-trigger
  alarm is disabled if and only if it was disabled before the pass or the persisted
  next-state pointer of at least one button is null. So it is disabled when every
  pointer is null, and a single null pointer is enough.
\<close>

theorem button_task_alarm_disabled:
  "tmrstate (Btn_tmr_ButtonRead (fst (Btn_tsk_ButtonRead cfg sme ev extra st)))
     = kTmrState_Disabled
   \<longleftrightarrow> tmrstate (Btn_tmr_ButtonRead (fst st)) = kTmrState_Disabled
       \<or> (\<exists>i<9. currentstate (fst (Btn_tsk_ButtonRead cfg sme ev extra st)) (of_nat i) = None)"
  using loop_tmrstate [of 9 cfg sme ev extra st]
  by (simp add: Btn_tsk_ButtonRead_def kBoardNumButtons_def)


theorem button_task_alarm_disabled_witness:
  "\<exists>i<9. currentstate (fst (Btn_tsk_ButtonRead cfg_example sme_null_for_button0
              \<lparr>evId = 1, evData = 0\<rparr> 0 (task_init cfg_example, ()))) (of_nat i) = None"
proof -
  have after: "tmrstate (Btn_tmr_ButtonRead (fst (Btn_tsk_ButtonRead cfg_example
      sme_null_for_button0 \<lparr>evId = 1, evData = 0\<rparr> 0 (task_init cfg_example, ()))))
      = kTmrState_Disabled"
    by code_simp
  have before: "tmrstate (Btn_tmr_ButtonRead (fst (task_init cfg_example, ())))
      \<noteq> kTmrState_Disabled"
    by (simp add: task_init_def Btn_tmr_ButtonRead_init_def)
  from button_task_alarm_disabled [of cfg_example sme_null_for_button0
      "\<lparr>evId = 1, evData = 0\<rparr>" 0 "(task_init cfg_example, ())"] after before
  show ?thesis by blast
qed

text \<open>
  Claim C5 as stated has the alarm disabled only when every pointer is null. One pass
  from the initial task state, with an engine that returns the null handler for button
  0 alone: the alarm is disabled, and the pointers of the buttons 1 to 8 are not null.
\<close>

theorem button_task_alarm_counterexample:
  "tmrstate (Btn_tmr_ButtonRead (fst (Btn_tsk_ButtonRead cfg_example sme_null_for_button0
      \<lparr>evId = 1, evData = 0\<rparr> 0 (task_init cfg_example, ())))) = kTmrState_Disabled
   \<and> map (currentstate (fst (Btn_tsk_ButtonRead cfg_example sme_null_for_button0
            \<lparr>evId = 1, evData = 0\<rparr> 0 (task_init cfg_example, ()))))
         [0, 1, 2, 3, 4, 5, 6, 7, 8]
       = [None, Some pf_stStart, Some pf_stStart, Some pf_stStart, Some pf_stStart,
          Some pf_stStart, Some pf_stStart, Some pf_stStart, Some pf_stStart]"
  by code_simp

section \<open>Entry and exit cases of the state functions\<close>

text \<open>The entry case of every state function but \<open>stButtonStuck\<close> sets the phase marker to
  \<open>kStateOperational\<close>, whatever unexpected value it held; the entry case of
  \<open>stButtonStuck\<close> leaves the incremented value. The exit case of every state function but
  \<open>stButtonPressed\<close> writes the button index into the event; \<open>stButtonPressed\<close> writes what
  its operate cycle stored, the button index on a 0 bit and 0 on the stuck timeout.\<close>

lemma entry_restores_phase:
  assumes "h \<noteq> pf_stButtonStuck"
    and "evData ev < kBoardNumButtons"
    and "handler_phase h (evData ev) w \<noteq> kStateOperational"
    and "handler_phase h (evData ev) w \<noteq> kStateExit"
  shows "\<exists>r. call_pfStateHandler cfg h (Some ev) (Some extra) w = Inr r
          \<and> sr_rc r = kStateOperational
          \<and> handler_phase h (evData ev) (sr_world r) = kStateOperational"
  using assms
  by (cases h)
     (simp_all add: stStart_def stButtonReleased_def stDebouncePress_def stButtonPressed_def
        stDebounceRelease_def stDebounceButton_def Let_def stDebounceButton_entry_def
        stButtonPressed_entry_def)

lemma stuck_entry_increments_phase:
  assumes "evData ev < kBoardNumButtons"
    and "sk_statephase (stuck w) (evData ev) \<noteq> kStateOperational"
    and "sk_statephase (stuck w) (evData ev) \<noteq> kStateExit"
  shows "\<exists>r. stButtonStuck (Some ev) (Some extra) w = Inr r
          \<and> sr_rc r = sk_statephase (stuck w) (evData ev) + 1
          \<and> sk_statephase (stuck (sr_world r)) (evData ev)
              = sk_statephase (stuck w) (evData ev) + 1"
  using assms by (simp add: stButtonStuck_def Let_def)

lemma exit_writes_button_index:
  assumes "h \<noteq> pf_stButtonPressed"
    and "evData ev < kBoardNumButtons"
    and "handler_phase h (evData ev) w = kStateExit"
  shows "\<exists>r. call_pfStateHandler cfg h (Some ev) (Some extra) w = Inr r
          \<and> map_option evData (sr_ev r) = Some (evData ev)"
  using assms
  by (cases h)
     (simp_all add: stStart_def stButtonReleased_def stDebouncePress_def stButtonStuck_def
        stDebounceRelease_def stDebounceButton_def Let_def)

lemma pressed_exit_writes_reason2:
  assumes "evData ev < kBoardNumButtons"
    and "pr_statephase (pressed w) (evData ev) = kStateExit"
  shows "\<exists>r. stButtonPressed cfg (Some ev) (Some extra) w = Inr r
          \<and> map_option evData (sr_ev r) = Some (pr_reason2 (pressed w) (evData ev))
          \<and> sr_extra r = Some (pr_reason3 (pressed w) (evData ev))"
  using assms by (simp add: stButtonPressed_def Let_def)

lemma pressed_operational_reasons:
  assumes "evData ev < kBoardNumButtons"
    and "pr_statephase (pressed w) (evData ev) = kStateOperational"
    and "di_read_next_button_input_bit (evData ev) (di w) = Inr (thisbit, d')"
  shows "\<exists>r. stButtonPressed cfg (Some ev) (Some extra) w = Inr r
          \<and> (let s' = pressed (sr_world r); b = evData ev
              in if \<not> thisbit then
                   pr_statephase s' b = kStateExit \<and> pr_reason2 s' b = b
                   \<and> pr_reason3 s' b = kReasonTwitchNoted
                 else if TM (Cwsw_ClockTics w) (pr_tmrPressedStateTimer (pressed w) b) then
                   pr_statephase s' b = kStateExit \<and> pr_reason2 s' b = 0
                   \<and> pr_reason3 s' b = kReasonTimeout
                 else pr_statephase s' b = kStateOperational)"
  using assms by (simp add: stButtonPressed_def Let_def stButtonPressed_operational_def)

section \<open>Evaluations of the state functions and of the table\<close>

lemma rows_for_release_timeout:
  "rows_for pf_stDebounceRelease kReasonTimeout (tblTransitions cfg) = []"
  by (simp add: rows_for_def tblTransitions_def kReasonTimeout_def kReasonDebounced_def)

lemma rows_for_press_timeout:
  "rows_for pf_stDebouncePress kReasonTimeout (tblTransitions cfg) =
     [\<lparr>tt_current = pf_stDebouncePress, tt_reason1 = evButton_Task cfg, tt_reason2 = 0xFF,
       tt_reason3 = kReasonTimeout, tt_next = pf_stButtonReleased,
       tt_transition = pf_NullTransition\<rparr>]"
  by (simp add: rows_for_def tblTransitions_def kReasonTimeout_def kReasonDebounced_def)

text \<open>
  Claim C2, evaluated. Button 2 enters a debounce state at tick 0 with a debounce time
  of 600 ticks, reads the bit 1 at tick 300 and the bit 0 at tick 700: the accumulator
  is 6, the timer has expired, and the exit call writes back the inbound event id, the
  button index and the reason Timeout. For DebouncePress the table has one row with
  this reason, with the next state ButtonReleased; for DebounceRelease the table has no
  row with this reason.
\<close>

theorem debounce_timeout_transition:
  "exit_triple (call_after_ticks cfg_example pf_stDebouncePress \<lparr>evId = 1, evData = 2\<rparr> 0
      [0, 300, 700] world_noisy)
     = Some (kStateFinished, Some \<lparr>evId = evButton_Task cfg_example, evData = 2\<rparr>,
             Some kReasonTimeout)
   \<and> map tt_next (rows_for pf_stDebouncePress kReasonTimeout (tblTransitions cfg_example))
       = [pf_stButtonReleased]
   \<and> exit_triple (call_after_ticks cfg_example pf_stDebounceRelease \<lparr>evId = 1, evData = 2\<rparr> 0
      [0, 300, 700] world_noisy)
     = Some (kStateFinished, Some \<lparr>evId = evButton_Task cfg_example, evData = 2\<rparr>,
             Some kReasonTimeout)
   \<and> rows_for pf_stDebounceRelease kReasonTimeout (tblTransitions cfg_example) = []"
  by code_simp

text \<open>
  Claim C3, evaluated. Button 3 is held down and is in the state ButtonStuck; the bits
  0, 1, 1 are stored for index 0. The entry call and one operate cycle of
  \<open>stButtonStuck\<close> for button 3 consume a bit of the stream of index 0 (6 becomes 3),
  and the state leaves its operate phase on that bit 0 although the reads of button 3
  return 1.
\<close>

theorem stuck_reads_index0:
  "di_stream 0 world_held_other = 6
   \<and> map_sum id (di_stream 0)
        (handler_ticks cfg_example pf_stButtonStuck \<lparr>evId = 1, evData = 3\<rparr> 0 [0, 10]
           world_held_other) = Inr 3
   \<and> di_feeds (di world_held_other) 3 True 1
   \<and> map_sum id (stuck_phase 3)
        (handler_ticks cfg_example pf_stButtonStuck \<lparr>evId = 1, evData = 3\<rparr> 0 [0, 10]
           world_held_other) = Inr kStateExit"
  by code_simp

text \<open>
  Claim C4, evaluated. Button 3 is held down and enters ButtonPressed at tick 0 with a
  stuck timeout of 30000 ticks; at tick 30000 the operate cycle finds the timer expired,
  and the exit call writes back the button index 0 with the reason Timeout. On the
  other exit path (a 0 bit read), the exit call writes back the button index 3.
\<close>

theorem pressed_timeout_exit_index:
  "exit_triple (call_after_ticks cfg_example pf_stButtonPressed \<lparr>evId = 1, evData = 3\<rparr> 0
      [0, 10, 30000] world_held)
     = Some (kStateFinished, Some \<lparr>evId = 1, evData = 0\<rparr>, Some kReasonTimeout)
   \<and> exit_triple (call_after_ticks cfg_example pf_stButtonPressed \<lparr>evId = 1, evData = 3\<rparr> 0
      [0, 10] world_init)
     = Some (kStateFinished, Some \<lparr>evId = 1, evData = 3\<rparr>, Some kReasonTwitchNoted)"
  by code_simp

text \<open>
  Claim C6, evaluated. From the initial world, \<open>stButtonStuck\<close> for button 3 runs its
  entry, one operate cycle and its exit, which leaves the phase marker at
  \<open>kStateFinished\<close>. The next two calls both run the entry case and leave the marker at
  4 and at 5: the entry case does not set it to \<open>kStateOperational\<close>.
\<close>

theorem stuck_entry_keeps_phase:
  "map_sum id (stuck_phase 3)
     (handler_ticks cfg_example pf_stButtonStuck \<lparr>evId = 1, evData = 3\<rparr> 0 [0, 10, 20]
        world_init) = Inr kStateFinished
   \<and> map_sum id (stuck_phase 3)
     (handler_ticks cfg_example pf_stButtonStuck \<lparr>evId = 1, evData = 3\<rparr> 0 [0, 10, 20, 30]
        world_init) = Inr 4
   \<and> map_sum id (stuck_phase 3)
     (handler_ticks cfg_example pf_stButtonStuck \<lparr>evId = 1, evData = 3\<rparr> 0 [0, 10, 20, 30, 40]
        world_init) = Inr 5"
  by code_simp

end
